theory Spec2Isabelle
  imports Main
begin

section \<open>Common definitions\<close>

text \<open>
  Identifiers follow \<^verbatim>\<open>common/config.h\<close>: \<^verbatim>\<open>page_id_t\<close> and \<^verbatim>\<open>frame_id_t\<close> are
  signed integers, and \<^verbatim>\<open>INVALID_PAGE_ID\<close> is \<open>-1\<close>.  Every place where the C++ code
  has undefined behaviour, throws, or terminates the process is a value of \<open>error\<close>.
\<close>

type_synonym page_id_t = int
type_synonym frame_id_t = int

definition INVALID_PAGE_ID :: page_id_t where
  "INVALID_PAGE_ID = -1"

datatype error =
    NullDereference
  | EndIteratorDereference
  | EmptyListAccess
  | OutOfRange
  | OutOfBoundsAccess
  | ProcessExit

section \<open>LRU-K replacer (\<^verbatim>\<open>lru_k_replacer.h\<close>, \<^verbatim>\<open>lru_k_replacer.cpp\<close>)\<close>

text \<open>
  \<^verbatim>\<open>access_history_\<close> is the \<^verbatim>\<open>std::list<int64_t>\<close> of a frame: the head of the list is
  \<^verbatim>\<open>front()\<close> (the newest timestamp, pushed by \<^verbatim>\<open>push_front\<close>), the last element is
  \<^verbatim>\<open>back()\<close>.
\<close>

record FrameAccessHistory =
  is_evictable :: bool
  look_back_size :: nat
  frame_id :: frame_id_t
  access_history :: "int list"

definition GetAccessHistorySize :: "FrameAccessHistory \<Rightarrow> nat" where
  "GetAccessHistorySize f = length (access_history f)"

definition GetLookBackSize :: "FrameAccessHistory \<Rightarrow> nat" where
  "GetLookBackSize f = look_back_size f"

definition GetKthAccessRecord :: "FrameAccessHistory \<Rightarrow> int" where
  "GetKthAccessRecord f = last (access_history f)"

definition GetLastAccessRecord :: "FrameAccessHistory \<Rightarrow> int" where
  "GetLastAccessRecord f = last (access_history f)"

definition GetFrameId :: "FrameAccessHistory \<Rightarrow> frame_id_t" where
  "GetFrameId f = frame_id f"

definition IsEvictable :: "FrameAccessHistory \<Rightarrow> bool" where
  "IsEvictable f = is_evictable f"

text \<open>
  \<^verbatim>\<open>FrameAccessHistory::RecordAccess\<close>.  The clock reading \<^verbatim>\<open>system_clock::now()\<close> is the
  argument \<open>nanos\<close>.  \<^verbatim>\<open>pop_back\<close> on an empty list (only possible when \<^verbatim>\<open>look_back_size_ == 0\<close>)
  is undefined behaviour.
\<close>

definition FrameAccessHistory_RecordAccess ::
    "int \<Rightarrow> FrameAccessHistory \<Rightarrow> error + FrameAccessHistory" where
  "FrameAccessHistory_RecordAccess nanos f =
     (let history_size = length (access_history f) in
      if history_size \<ge> look_back_size f then
        (if access_history f = [] then Inl EmptyListAccess
         else Inr (f\<lparr>access_history := nanos # butlast (access_history f)\<rparr>))
      else Inr (f\<lparr>access_history := nanos # access_history f\<rparr>))"

text \<open>
  \<^verbatim>\<open>FrameAccessHistoryOrderComparison::operator()\<close>: the strict order of
  \<^verbatim>\<open>frame_history_set_\<close>.
\<close>

definition FrameAccessHistoryOrderComparison ::
    "FrameAccessHistory \<Rightarrow> FrameAccessHistory \<Rightarrow> bool" where
  "FrameAccessHistoryOrderComparison frame1 frame2 =
     (let frame1_size = GetAccessHistorySize frame1;
          frame2_size = GetAccessHistorySize frame2;
          frame1_hist_available = (frame1_size = GetLookBackSize frame1);
          frame2_hist_available = (frame2_size = GetLookBackSize frame2);
          return_val =
            (if frame1_hist_available \<and> \<not> frame2_hist_available then False
             else if frame2_hist_available \<and> \<not> frame1_hist_available then True
             else if \<not> frame2_hist_available \<and> \<not> frame1_hist_available then
               GetLastAccessRecord frame1 \<le> GetLastAccessRecord frame2
             else GetKthAccessRecord frame1 \<le> GetKthAccessRecord frame2)
      in \<not> return_val)"

text \<open>
  \<^verbatim>\<open>std::set::insert\<close> on a set kept as the list of its elements in iteration order
  (\<^verbatim>\<open>begin()\<close> first, \<^verbatim>\<open>rbegin()\<close> last): the element goes behind every element that orders
  before it, and is dropped when an equivalent element is already there.
\<close>

fun set_insert :: "('a \<Rightarrow> 'a \<Rightarrow> bool) \<Rightarrow> 'a \<Rightarrow> 'a list \<Rightarrow> 'a list" where
  "set_insert lt x [] = [x]"
| "set_insert lt x (y # ys) =
     (if lt y x then y # set_insert lt x ys
      else if lt x y then x # y # ys
      else y # ys)"

text \<open>
  \<^verbatim>\<open>std::unordered_map\<close> as an association list with unique keys: \<^verbatim>\<open>find\<close>, \<^verbatim>\<open>insert\<close>
  (which keeps an existing entry), \<^verbatim>\<open>erase\<close>, and the in-place update of a mapped object.
\<close>

definition umap_find :: "('k \<times> 'v) list \<Rightarrow> 'k \<Rightarrow> 'v option" where
  "umap_find m k = map_of m k"

definition umap_insert :: "'k \<Rightarrow> 'v \<Rightarrow> ('k \<times> 'v) list \<Rightarrow> ('k \<times> 'v) list" where
  "umap_insert k v m = (case map_of m k of None \<Rightarrow> m @ [(k, v)] | Some _ \<Rightarrow> m)"

definition umap_erase :: "'k \<Rightarrow> ('k \<times> 'v) list \<Rightarrow> ('k \<times> 'v) list" where
  "umap_erase k m = filter (\<lambda>e. fst e \<noteq> k) m"

definition umap_assign :: "'k \<Rightarrow> 'v \<Rightarrow> ('k \<times> 'v) list \<Rightarrow> ('k \<times> 'v) list" where
  "umap_assign k v m = map (\<lambda>e. if fst e = k then (k, v) else e) m"

text \<open>
  The replacer.  \<^verbatim>\<open>frame_history_set_\<close> holds shared pointers to the objects of
  \<^verbatim>\<open>frame_index_map_\<close>; every mutation of such an object (\<^verbatim>\<open>RecordAccess\<close>,
  \<^verbatim>\<open>SetEvictable\<close>) is preceded by \<^verbatim>\<open>RemoveFrameFromSetInternal\<close>, so an object is never
  changed while the set holds it and the set is modelled as the ordered list of the
  objects it points to.
\<close>

record LRUKReplacer =
  replacer_k :: nat
  replacer_size :: nat
  frame_index_map :: "(frame_id_t \<times> FrameAccessHistory) list"
  frame_history_set :: "FrameAccessHistory list"

definition LRUKReplacer_new :: "nat \<Rightarrow> nat \<Rightarrow> LRUKReplacer" where
  "LRUKReplacer_new num_frames k =
     \<lparr>replacer_k = k, replacer_size = num_frames, frame_index_map = [], frame_history_set = []\<rparr>"

fun erase_first :: "('a \<Rightarrow> bool) \<Rightarrow> 'a list \<Rightarrow> 'a list" where
  "erase_first P [] = []"
| "erase_first P (x # xs) = (if P x then xs else x # erase_first P xs)"

definition RemoveFrameFromSetInternal :: "frame_id_t \<Rightarrow> LRUKReplacer \<Rightarrow> LRUKReplacer" where
  "RemoveFrameFromSetInternal fid r =
     r\<lparr>frame_history_set :=
         erase_first (\<lambda>fr. GetFrameId fr = fid) (frame_history_set r)\<rparr>"

text \<open>\<^verbatim>\<open>Evict\<close>: the out-parameter and the boolean result together are the option.\<close>

definition Evict :: "LRUKReplacer \<Rightarrow> frame_id_t option \<times> LRUKReplacer" where
  "Evict r =
     (if frame_history_set r = [] then (None, r)
      else
        (let frame_ptr = last (frame_history_set r);
             fid = GetFrameId frame_ptr;
             r1 = RemoveFrameFromSetInternal (GetFrameId frame_ptr) r;
             r2 = r1\<lparr>frame_index_map := umap_erase fid (frame_index_map r1)\<rparr>
         in (Some fid, r2)))"

definition RecordAccess :: "frame_id_t \<Rightarrow> int \<Rightarrow> LRUKReplacer \<Rightarrow> error + LRUKReplacer" where
  "RecordAccess fid nanos r =
     (case umap_find (frame_index_map r) fid of
        None \<Rightarrow>
          (case FrameAccessHistory_RecordAccess nanos
                  \<lparr>is_evictable = False, look_back_size = replacer_k r, frame_id = fid,
                   access_history = []\<rparr> of
             Inl e \<Rightarrow> Inl e
           | Inr new_frame \<Rightarrow>
               Inr (r\<lparr>frame_index_map := umap_insert fid new_frame (frame_index_map r),
                      frame_history_set :=
                        set_insert FrameAccessHistoryOrderComparison new_frame
                          (frame_history_set r)\<rparr>))
      | Some frame \<Rightarrow>
          (let r1 = RemoveFrameFromSetInternal fid r in
           case FrameAccessHistory_RecordAccess nanos frame of
             Inl e \<Rightarrow> Inl e
           | Inr frame' \<Rightarrow>
               (let r2 = r1\<lparr>frame_index_map :=
                               umap_assign fid frame' (frame_index_map r1)\<rparr>
                in if IsEvictable frame' then
                     Inr (r2\<lparr>frame_history_set :=
                               set_insert FrameAccessHistoryOrderComparison frame'
                                 (frame_history_set r2)\<rparr>)
                   else Inr r2)))"

text \<open>
  \<^verbatim>\<open>SetEvictable\<close> dereferences \<^verbatim>\<open>frame_index_map_.find(frame_id)\<close> without comparing it
  with \<^verbatim>\<open>end()\<close>.
\<close>

definition SetEvictable :: "frame_id_t \<Rightarrow> bool \<Rightarrow> LRUKReplacer \<Rightarrow> error + LRUKReplacer" where
  "SetEvictable fid set_evictable r =
     (case umap_find (frame_index_map r) fid of
        None \<Rightarrow> Inl EndIteratorDereference
      | Some frame \<Rightarrow>
          (let r1 = RemoveFrameFromSetInternal fid r;
               frame' = frame\<lparr>is_evictable := set_evictable\<rparr>;
               r2 = r1\<lparr>frame_index_map := umap_assign fid frame' (frame_index_map r1)\<rparr>
           in if set_evictable \<and> length (frame_history_set r2) < replacer_size r2 then
                Inr (r2\<lparr>frame_history_set :=
                          set_insert FrameAccessHistoryOrderComparison frame'
                            (frame_history_set r2)\<rparr>)
              else Inr r2))"

definition Remove :: "frame_id_t \<Rightarrow> LRUKReplacer \<Rightarrow> error + LRUKReplacer" where
  "Remove fid r =
     (case umap_find (frame_index_map r) fid of
        None \<Rightarrow> Inr r
      | Some frame \<Rightarrow>
          if IsEvictable frame then
            (let r1 = RemoveFrameFromSetInternal fid r
             in Inr (r1\<lparr>frame_index_map := umap_erase fid (frame_index_map r1)\<rparr>))
          else Inl ProcessExit)"

definition Size :: "LRUKReplacer \<Rightarrow> nat" where
  "Size r = length (frame_history_set r)"

text \<open>The number of frames whose \<^verbatim>\<open>is_evictable_\<close> flag is set.\<close>

definition evictable_count :: "LRUKReplacer \<Rightarrow> nat" where
  "evictable_count r = length (filter (\<lambda>e. IsEvictable (snd e)) (frame_index_map r))"

text \<open>A run of replacer operations, stopping at the first error.\<close>

datatype replacer_op =
    OpRecordAccess frame_id_t int
  | OpSetEvictable frame_id_t bool
  | OpRemove frame_id_t
  | OpEvict

fun replacer_step :: "replacer_op \<Rightarrow> LRUKReplacer \<Rightarrow> error + LRUKReplacer" where
  "replacer_step (OpRecordAccess f t) r = RecordAccess f t r"
| "replacer_step (OpSetEvictable f b) r = SetEvictable f b r"
| "replacer_step (OpRemove f) r = Remove f r"
| "replacer_step OpEvict r = Inr (snd (Evict r))"

fun replacer_run :: "replacer_op list \<Rightarrow> LRUKReplacer \<Rightarrow> error + LRUKReplacer" where
  "replacer_run [] r = Inr r"
| "replacer_run (x # xs) r =
     (case replacer_step x r of Inl e \<Rightarrow> Inl e | Inr r' \<Rightarrow> replacer_run xs r')"

section \<open>Extendible hash table (\<^verbatim>\<open>extendible_hash_table.cpp\<close>)\<close>

text \<open>
  A bucket: \<^verbatim>\<open>size_\<close> (its capacity), \<^verbatim>\<open>depth_\<close> and \<^verbatim>\<open>list_\<close>.
\<close>

record ('k, 'v) Bucket =
  bkt_size :: nat
  bkt_depth :: int
  bkt_list :: "('k \<times> 'v) list"

definition Bucket_new :: "nat \<Rightarrow> int \<Rightarrow> ('k, 'v) Bucket" where
  "Bucket_new array_size depth = \<lparr>bkt_size = array_size, bkt_depth = depth, bkt_list = []\<rparr>"

text \<open>
  Modelled from the spec: \<^verbatim>\<open>Bucket::IsFull\<close>, \<^verbatim>\<open>Bucket::GetDepth\<close>,
  \<^verbatim>\<open>Bucket::IncrementDepth\<close>, \<^verbatim>\<open>Bucket::GetItems\<close> and \<^verbatim>\<open>Bucket::GetFirstItem\<close> are inline
  members of the header \<^verbatim>\<open>extendible_hash_table.h\<close>.  A bucket ``holds up to
  \<^verbatim>\<open>bucket_size\<close> key/value entries and a local depth'': it is full when it holds that many.
\<close>

definition IsFull :: "('k, 'v) Bucket \<Rightarrow> bool" where
  "IsFull b = (length (bkt_list b) = bkt_size b)"

definition GetDepth :: "('k, 'v) Bucket \<Rightarrow> int" where
  "GetDepth b = bkt_depth b"

definition IncrementDepth :: "('k, 'v) Bucket \<Rightarrow> ('k, 'v) Bucket" where
  "IncrementDepth b = b\<lparr>bkt_depth := bkt_depth b + 1\<rparr>"

definition GetItems :: "('k, 'v) Bucket \<Rightarrow> ('k \<times> 'v) list" where
  "GetItems b = bkt_list b"

definition GetFirstItem :: "('k, 'v) Bucket \<Rightarrow> error + 'k" where
  "GetFirstItem b = (case bkt_list b of [] \<Rightarrow> Inl EmptyListAccess | e # _ \<Rightarrow> Inr (fst e))"

definition Bucket_Find :: "('k, 'v) Bucket \<Rightarrow> 'k \<Rightarrow> 'v option" where
  "Bucket_Find b key = map_option snd (find (\<lambda>entry. fst entry = key) (bkt_list b))"

definition Bucket_Remove :: "'k \<Rightarrow> ('k, 'v) Bucket \<Rightarrow> bool \<times> ('k, 'v) Bucket" where
  "Bucket_Remove key b =
     (if find (\<lambda>entry. fst entry = key) (bkt_list b) \<noteq> None
      then (True, b\<lparr>bkt_list := erase_first (\<lambda>entry. fst entry = key) (bkt_list b)\<rparr>)
      else (False, b))"

text \<open>The loop of \<^verbatim>\<open>Bucket::Insert\<close> that overwrites the value of the first entry with the key.\<close>

fun assign_first :: "'k \<Rightarrow> 'v \<Rightarrow> ('k \<times> 'v) list \<Rightarrow> ('k \<times> 'v) list" where
  "assign_first key val [] = []"
| "assign_first key val (entry # rest) =
     (if fst entry = key then (fst entry, val) # rest else entry # assign_first key val rest)"

definition Bucket_Insert :: "'k \<Rightarrow> 'v \<Rightarrow> ('k, 'v) Bucket \<Rightarrow> bool \<times> ('k, 'v) Bucket" where
  "Bucket_Insert key val b =
     (if IsFull b then (False, b)
      else if find (\<lambda>entry. fst entry = key) (bkt_list b) \<noteq> None
      then (True, b\<lparr>bkt_list := assign_first key val (bkt_list b)\<rparr>)
      else (True, b\<lparr>bkt_list := bkt_list b @ [(key, val)]\<rparr>))"

text \<open>
  The table.  \<^verbatim>\<open>dir_\<close> is a vector of shared pointers, and several slots may point to the
  same bucket, which \<^verbatim>\<open>SplitBucket\<close> mutates through the pointer: the buckets live in a
  store (\<open>bkt_store\<close>, address = position) and \<open>dir\<close> holds addresses.  The hash function
  \<^verbatim>\<open>std::hash<K>\<close> is the parameter \<open>hf\<close>.
\<close>

record ('k, 'v) ExtendibleHashTable =
  global_depth :: int
  bucket_size :: nat
  num_buckets :: int
  dir :: "nat list"
  bkt_store :: "('k, 'v) Bucket list"

definition ExtendibleHashTable_new :: "nat \<Rightarrow> ('k, 'v) ExtendibleHashTable" where
  "ExtendibleHashTable_new bsize =
     \<lparr>global_depth = 1, bucket_size = bsize, num_buckets = 2, dir = [0, 1],
      bkt_store = [Bucket_new bsize 1, Bucket_new bsize 1]\<rparr>"

text \<open>\<^verbatim>\<open>1 << n\<close>\<close>

definition shl1 :: "int \<Rightarrow> nat" where
  "shl1 n = 2 ^ nat n"

definition IndexOf :: "('k \<Rightarrow> nat) \<Rightarrow> ('k, 'v) ExtendibleHashTable \<Rightarrow> 'k \<Rightarrow> nat" where
  "IndexOf hf h key = (let msk = shl1 (global_depth h) - 1 in and (hf key) msk)"

definition GetGlobalDepthInternal :: "('k, 'v) ExtendibleHashTable \<Rightarrow> int" where
  "GetGlobalDepthInternal h = global_depth h"

definition IncrementGlobalDepthInternal ::
    "('k, 'v) ExtendibleHashTable \<Rightarrow> ('k, 'v) ExtendibleHashTable" where
  "IncrementGlobalDepthInternal h = h\<lparr>global_depth := global_depth h + 1\<rparr>"

text \<open>\<^verbatim>\<open>dir_.at(i)\<close> is range-checked; the pointer found there is then dereferenced.\<close>

definition dir_at :: "('k, 'v) ExtendibleHashTable \<Rightarrow> nat \<Rightarrow> error + nat" where
  "dir_at h i = (if i < length (dir h) then Inr (dir h ! i) else Inl OutOfRange)"

definition bucket_at :: "('k, 'v) ExtendibleHashTable \<Rightarrow> nat \<Rightarrow> error + ('k, 'v) Bucket" where
  "bucket_at h a =
     (if a < length (bkt_store h) then Inr (bkt_store h ! a) else Inl NullDereference)"

definition Find :: "('k \<Rightarrow> nat) \<Rightarrow> ('k, 'v) ExtendibleHashTable \<Rightarrow> 'k \<Rightarrow> error + 'v option" where
  "Find hf h key =
     (let dir_index = IndexOf hf h key in
      case dir_at h dir_index of
        Inl e \<Rightarrow> Inl e
      | Inr a \<Rightarrow> (case bucket_at h a of Inl e \<Rightarrow> Inl e | Inr b \<Rightarrow> Inr (Bucket_Find b key)))"

definition HashTable_Remove ::
    "('k \<Rightarrow> nat) \<Rightarrow> 'k \<Rightarrow> ('k, 'v) ExtendibleHashTable
       \<Rightarrow> error + bool \<times> ('k, 'v) ExtendibleHashTable" where
  "HashTable_Remove hf key h =
     (let dir_index = IndexOf hf h key in
      case dir_at h dir_index of
        Inl e \<Rightarrow> Inl e
      | Inr a \<Rightarrow>
          (case bucket_at h a of
             Inl e \<Rightarrow> Inl e
           | Inr b \<Rightarrow>
               (let (res, b') = Bucket_Remove key b
                in Inr (res, h\<lparr>bkt_store := (bkt_store h)[a := b']\<rparr>))))"

text \<open>
  \<^verbatim>\<open>SplitBucket\<close>.  \<open>a\<close> is the address of \<^verbatim>\<open>bucket\<close>; the new bucket is allocated at the
  end of the store.  The three loops are the two folds and \<open>relink\<close>.
\<close>

definition relink ::
    "nat \<Rightarrow> int \<Rightarrow> nat \<Rightarrow> nat \<Rightarrow> nat \<Rightarrow> nat \<Rightarrow> nat \<Rightarrow> nat list \<Rightarrow> nat list" where
  "relink dir_index depth bit_mask depth_bit a new_a i d =
     (let idx = (if i = 0 then and dir_index (shl1 depth - 1)
                 else or (i * shl1 depth) (and dir_index (shl1 depth - 1)))
      in if and idx bit_mask = depth_bit then d[idx := a] else d[idx := new_a])"

definition SplitBucket ::
    "('k \<Rightarrow> nat) \<Rightarrow> nat \<Rightarrow> nat \<Rightarrow> ('k, 'v) ExtendibleHashTable
       \<Rightarrow> error + ('k, 'v) ExtendibleHashTable" where
  "SplitBucket hf a dir_index h =
     (case bucket_at h a of
        Inl e \<Rightarrow> Inl e
      | Inr bucket \<Rightarrow>
     (case GetFirstItem bucket of
        Inl e \<Rightarrow> Inl e
      | Inr first_item \<Rightarrow>
          (let cur_key_hash = hf first_item;
               incremented_depth_bit_mask = shl1 (GetDepth bucket);
               cur_key_hash_incremented_depth_bit = and cur_key_hash incremented_depth_bit_mask;
               moved = filter (\<lambda>item. and (hf (fst item)) incremented_depth_bit_mask
                                        \<noteq> cur_key_hash_incremented_depth_bit) (GetItems bucket);
               new_bucket = fold (\<lambda>item nb. snd (Bucket_Insert (fst item) (snd item) nb)) moved
                              (Bucket_new (bucket_size h) (GetDepth bucket + 1));
               removal_list = map fst moved;
               bucket1 = fold (\<lambda>remove_k b. snd (Bucket_Remove remove_k b)) removal_list bucket;
               new_a = length (bkt_store h);
               dir' = fold (relink dir_index (GetDepth bucket) incremented_depth_bit_mask
                              cur_key_hash_incremented_depth_bit a new_a)
                        [0 ..< shl1 (GetGlobalDepthInternal h - GetDepth bucket)] (dir h)
           in Inr (h\<lparr>dir := dir',
                     bkt_store := (bkt_store h)[a := IncrementDepth bucket1] @ [new_bucket]\<rparr>))))"

text \<open>
  \<^verbatim>\<open>InsertInternal\<close> calls itself after a split and need not return (keys whose hashes
  agree on every bit split for ever): the first argument is fuel, and \<open>None\<close> means that
  the fuel ran out.
\<close>

fun InsertInternal ::
    "nat \<Rightarrow> ('k \<Rightarrow> nat) \<Rightarrow> 'k \<Rightarrow> 'v \<Rightarrow> ('k, 'v) ExtendibleHashTable
       \<Rightarrow> (error + ('k, 'v) ExtendibleHashTable) option" where
  "InsertInternal 0 hf key val h = None"
| "InsertInternal (Suc fuel) hf key val h =
     (let dir_index = IndexOf hf h key in
      case dir_at h dir_index of
        Inl e \<Rightarrow> Some (Inl e)
      | Inr a \<Rightarrow>
     (case bucket_at h a of
        Inl e \<Rightarrow> Some (Inl e)
      | Inr bucket \<Rightarrow>
          if \<not> IsFull bucket then
            Some (Inr (h\<lparr>bkt_store := (bkt_store h)[a := snd (Bucket_Insert key val bucket)]\<rparr>))
          else if Bucket_Find bucket key \<noteq> None then
            Some (Inr (h\<lparr>bkt_store := (bkt_store h)[a := snd (Bucket_Insert key val bucket)]\<rparr>))
          else
            (let h1 = (if GetDepth bucket = GetGlobalDepthInternal h
                       then IncrementGlobalDepthInternal (h\<lparr>dir := dir h @ dir h\<rparr>)
                       else h)
             in case SplitBucket hf a dir_index h1 of
                  Inl e \<Rightarrow> Some (Inl e)
                | Inr h2 \<Rightarrow> InsertInternal fuel hf key val h2)))"

definition Insert ::
    "nat \<Rightarrow> ('k \<Rightarrow> nat) \<Rightarrow> 'k \<Rightarrow> 'v \<Rightarrow> ('k, 'v) ExtendibleHashTable
       \<Rightarrow> (error + ('k, 'v) ExtendibleHashTable) option" where
  "Insert fuel hf key val h = InsertInternal fuel hf key val h"

text \<open>
  \<^verbatim>\<open>std::hash<int>\<close> of libstdc++: the conversion of the key to \<^verbatim>\<open>size_t\<close>.
\<close>

definition std_hash_int :: "int \<Rightarrow> nat" where
  "std_hash_int key = nat (key mod 2 ^ 64)"

section \<open>Buffer pool manager (\<^verbatim>\<open>buffer_pool_manager_instance.cpp\<close>)\<close>

text \<open>
  Modelled from the spec: the class \<^verbatim>\<open>Page\<close> (\<^verbatim>\<open>page.h\<close>) with its payload and the
  metadata \<^verbatim>\<open>page_id_\<close> (\<^verbatim>\<open>INVALID_PAGE_ID\<close> when free), \<^verbatim>\<open>pin_count_\<close> and
  \<^verbatim>\<open>is_dirty_\<close>; \<^verbatim>\<open>ResetMemory\<close> zeroes the payload.  The payload is a list of bytes
  whose length, \<^verbatim>\<open>BUSTUB_PAGE_SIZE\<close> of \<^verbatim>\<open>config.h\<close>, is a parameter.  The latches
  order concurrent threads and have no counterpart in this sequential model.
\<close>

record Page =
  page_id :: page_id_t
  pin_count :: int
  is_dirty :: bool
  data :: "nat list"

definition ResetMemory :: "nat \<Rightarrow> Page \<Rightarrow> Page" where
  "ResetMemory page_bytes p = p\<lparr>data := replicate page_bytes 0\<rparr>"

definition Page_new :: "nat \<Rightarrow> Page" where
  "Page_new page_bytes =
     \<lparr>page_id = INVALID_PAGE_ID, pin_count = 0, is_dirty = False,
      data = replicate page_bytes 0\<rparr>"

definition GetPageId :: "Page \<Rightarrow> page_id_t" where
  "GetPageId p = page_id p"

definition GetPinCount :: "Page \<Rightarrow> int" where
  "GetPinCount p = pin_count p"

definition IsDirty :: "Page \<Rightarrow> bool" where
  "IsDirty p = is_dirty p"

definition GetData :: "Page \<Rightarrow> nat list" where
  "GetData p = data p"

text \<open>
  The manager, from the first of the two copies of the source that the file holds (the
  second is an older copy whose constructor throws).  \<open>disk_writes\<close> records the calls
  \<^verbatim>\<open>disk_manager_->WritePage(id, data)\<close> in order; the disk manager itself is an external
  collaborator.  \<open>page_bytes\<close> is \<^verbatim>\<open>BUSTUB_PAGE_SIZE\<close>.  A \<^verbatim>\<open>Page *\<close> into \<^verbatim>\<open>pages_\<close> is the
  index of its frame, and \<^verbatim>\<open>pages_\<close> has \<^verbatim>\<open>pool_size_\<close> frames.  The model covers the
  constructor, \<^verbatim>\<open>NewPgImp\<close>, \<^verbatim>\<open>UnpinPgImp\<close>, \<^verbatim>\<open>FlushPgImp\<close>, \<^verbatim>\<open>FlushAllPgsImp\<close> and the
  helpers they call.
\<close>

record BufferPoolManagerInstance =
  pool_size :: nat
  pages :: "Page list"
  page_table :: "(page_id_t, frame_id_t) ExtendibleHashTable"
  replacer :: LRUKReplacer
  free_list :: "frame_id_t list"
  next_page_id :: page_id_t
  disk_writes :: "(page_id_t \<times> nat list) list"
  page_bytes :: nat

text \<open>
  The constructor; \<open>bsize\<close> is the constant \<^verbatim>\<open>bucket_size_\<close> of the header.
\<close>

definition BufferPoolManagerInstance_new ::
    "nat \<Rightarrow> nat \<Rightarrow> nat \<Rightarrow> nat \<Rightarrow> BufferPoolManagerInstance" where
  "BufferPoolManagerInstance_new pbytes bsize psize k =
     \<lparr>pool_size = psize,
      pages = replicate psize (Page_new pbytes),
      page_table = ExtendibleHashTable_new bsize,
      replacer = LRUKReplacer_new psize k,
      free_list = map int [0 ..< psize],
      next_page_id = 0,
      disk_writes = [],
      page_bytes = pbytes\<rparr>"

text \<open>\<^verbatim>\<open>&pages_[frame_id]\<close>: an index outside the array is undefined behaviour.\<close>

definition page_at :: "BufferPoolManagerInstance \<Rightarrow> frame_id_t \<Rightarrow> error + Page" where
  "page_at b fid =
     (if 0 \<le> fid \<and> fid < int (length (pages b)) then Inr (pages b ! nat fid)
      else Inl OutOfBoundsAccess)"

definition set_page :: "frame_id_t \<Rightarrow> Page \<Rightarrow> BufferPoolManagerInstance \<Rightarrow> BufferPoolManagerInstance" where
  "set_page fid p b = b\<lparr>pages := (pages b)[nat fid := p]\<rparr>"

definition AllocatePage :: "BufferPoolManagerInstance \<Rightarrow> page_id_t \<times> BufferPoolManagerInstance" where
  "AllocatePage b = (next_page_id b, b\<lparr>next_page_id := next_page_id b + 1\<rparr>)"

definition ResetPageMetadata :: "Page \<Rightarrow> Page" where
  "ResetPageMetadata p = p\<lparr>is_dirty := False, page_id := INVALID_PAGE_ID\<rparr>"

text \<open>
  \<^verbatim>\<open>FlushPgImpInternal(Page &page)\<close>: the page is the one in frame \<open>fid\<close>.
\<close>

definition FlushPgImpInternal :: "nat \<Rightarrow> BufferPoolManagerInstance \<Rightarrow> BufferPoolManagerInstance" where
  "FlushPgImpInternal fid b =
     (let page = pages b ! fid
      in b\<lparr>disk_writes := disk_writes b @ [(GetPageId page, GetData page)],
           pages := (pages b)[fid := page\<lparr>is_dirty := False\<rparr>]\<rparr>)"

text \<open>
  \<^verbatim>\<open>PostSuccessfullPageAllocation\<close>; \<open>fuel\<close> bounds the recursion of the hash table's
  insert and \<open>nanos\<close> is the clock reading of the replacer's \<^verbatim>\<open>RecordAccess\<close>.
\<close>

definition PostSuccessfullPageAllocation ::
    "nat \<Rightarrow> int \<Rightarrow> page_id_t \<Rightarrow> frame_id_t \<Rightarrow> BufferPoolManagerInstance
       \<Rightarrow> (error + BufferPoolManagerInstance) option" where
  "PostSuccessfullPageAllocation fuel nanos pid fid b =
     (case Insert fuel std_hash_int pid fid (page_table b) of
        None \<Rightarrow> None
      | Some (Inl e) \<Rightarrow> Some (Inl e)
      | Some (Inr pt) \<Rightarrow>
          (case RecordAccess fid nanos (replacer b) of
             Inl e \<Rightarrow> Some (Inl e)
           | Inr r1 \<Rightarrow>
               (case SetEvictable fid False r1 of
                  Inl e \<Rightarrow> Some (Inl e)
                | Inr r2 \<Rightarrow> Some (Inr (b\<lparr>page_table := pt, replacer := r2\<rparr>)))))"

text \<open>
  \<^verbatim>\<open>NewPgImp\<close>: the result is the new page id with the frame of the returned
  \<^verbatim>\<open>Page *\<close>, or \<open>None\<close> for \<^verbatim>\<open>nullptr\<close>.
\<close>

definition NewPgImp ::
    "nat \<Rightarrow> int \<Rightarrow> BufferPoolManagerInstance
       \<Rightarrow> (error + (page_id_t \<times> frame_id_t) option \<times> BufferPoolManagerInstance) option" where
  "NewPgImp fuel nanos b =
     (case free_list b of
        free_frame_id # rest \<Rightarrow>
          (let (new_page_id, b1) = AllocatePage b;
               b2 = b1\<lparr>free_list := rest\<rparr>
           in case page_at b2 free_frame_id of
                Inl e \<Rightarrow> Some (Inl e)
              | Inr free_page \<Rightarrow>
                  (let p = (ResetMemory (page_bytes b2) (ResetPageMetadata free_page))
                             \<lparr>page_id := new_page_id, pin_count := 1\<rparr>;
                       b3 = set_page free_frame_id p b2
                   in case PostSuccessfullPageAllocation fuel nanos new_page_id free_frame_id b3 of
                        None \<Rightarrow> None
                      | Some (Inl e) \<Rightarrow> Some (Inl e)
                      | Some (Inr b4) \<Rightarrow> Some (Inr (Some (new_page_id, free_frame_id), b4))))
      | [] \<Rightarrow>
          (case Evict (replacer b) of
             (None, r) \<Rightarrow> Some (Inr (None, b\<lparr>replacer := r\<rparr>))
           | (Some free_frame_id, r) \<Rightarrow>
               (let b0 = b\<lparr>replacer := r\<rparr> in
                case page_at b0 free_frame_id of
                  Inl e \<Rightarrow> Some (Inl e)
                | Inr free_page \<Rightarrow>
                    (case HashTable_Remove std_hash_int (GetPageId free_page) (page_table b0) of
                       Inl e \<Rightarrow> Some (Inl e)
                     | Inr (_, pt) \<Rightarrow>
                         (let (new_page_id, b1) = AllocatePage (b0\<lparr>page_table := pt\<rparr>);
                              b2 = (if IsDirty free_page
                                    then FlushPgImpInternal (nat free_frame_id) b1 else b1);
                              p = (ResetMemory (page_bytes b2)
                                     (ResetPageMetadata (pages b2 ! nat free_frame_id)))
                                    \<lparr>page_id := new_page_id, pin_count := 1\<rparr>;
                              b3 = set_page free_frame_id p b2
                          in case PostSuccessfullPageAllocation fuel nanos new_page_id
                                    free_frame_id b3 of
                               None \<Rightarrow> None
                             | Some (Inl e) \<Rightarrow> Some (Inl e)
                             | Some (Inr b4) \<Rightarrow>
                                 Some (Inr (Some (new_page_id, free_frame_id), b4)))))))"

text \<open>\<^verbatim>\<open>UnpinPgImp\<close>, with the branch on a zero pin count that the guard above it excludes.\<close>

definition UnpinPgImp ::
    "page_id_t \<Rightarrow> bool \<Rightarrow> BufferPoolManagerInstance
       \<Rightarrow> error + bool \<times> BufferPoolManagerInstance" where
  "UnpinPgImp pid dirty b =
     (case Find std_hash_int (page_table b) pid of
        Inl e \<Rightarrow> Inl e
      | Inr None \<Rightarrow> Inr (False, b)
      | Inr (Some fid) \<Rightarrow>
          (case page_at b fid of
             Inl e \<Rightarrow> Inl e
           | Inr existing_page \<Rightarrow>
               if GetPinCount existing_page \<le> 0 then Inr (False, b)
               else
                 (let p1 = (if dirty then existing_page\<lparr>is_dirty := dirty\<rparr> else existing_page)
                  in if GetPinCount p1 = 0 then
                       (case SetEvictable fid True (replacer b) of
                          Inl e \<Rightarrow> Inl e
                        | Inr r \<Rightarrow> Inr (True, (set_page fid p1 b)\<lparr>replacer := r\<rparr>))
                     else
                       (let p2 = p1\<lparr>pin_count := GetPinCount p1 - 1\<rparr>
                        in if GetPinCount p2 = 0 then
                             (case SetEvictable fid True (replacer b) of
                                Inl e \<Rightarrow> Inl e
                              | Inr r \<Rightarrow> Inr (True, (set_page fid p2 b)\<lparr>replacer := r\<rparr>))
                           else Inr (True, set_page fid p2 b)))))"

definition FlushPgImp ::
    "page_id_t \<Rightarrow> BufferPoolManagerInstance \<Rightarrow> error + bool \<times> BufferPoolManagerInstance" where
  "FlushPgImp pid b =
     (case Find std_hash_int (page_table b) pid of
        Inl e \<Rightarrow> Inl e
      | Inr None \<Rightarrow> Inr (False, b)
      | Inr (Some fid) \<Rightarrow>
          (case page_at b fid of
             Inl e \<Rightarrow> Inl e
           | Inr _ \<Rightarrow> Inr (True, FlushPgImpInternal (nat fid) b)))"

text \<open>\<^verbatim>\<open>FlushAllPgsImp\<close>: the loop over \<^verbatim>\<open>frame_id = 0 .. pool_size_ - 1\<close>.\<close>

definition FlushAllPgsImp :: "BufferPoolManagerInstance \<Rightarrow> BufferPoolManagerInstance" where
  "FlushAllPgsImp b = fold FlushPgImpInternal [0 ..< pool_size b] b"

section \<open>B+ tree pages (\<^verbatim>\<open>b_plus_tree_leaf_page.cpp\<close>, \<^verbatim>\<open>b_plus_tree_internal_page.cpp\<close>)\<close>

text \<open>
  Modelled from the spec: the node header of \<^verbatim>\<open>b_plus_tree_page.h\<close> (``\<^verbatim>\<open>page_id\<close>,
  \<^verbatim>\<open>parent_page_id\<close>, \<^verbatim>\<open>size\<close>, \<^verbatim>\<open>max_size\<close>, \<^verbatim>\<open>page_type\<close>, \<^verbatim>\<open>is_root\<close>''), whose
  getters and setters are the selectors and updates of the record below, and the
  three-way \<^verbatim>\<open>KeyComparator\<close>.  Keys are the integers that \<^verbatim>\<open>GenericKey::SetFromInteger\<close>
  stores, and a leaf value (\<^verbatim>\<open>RID\<close>) is an integer as well.

  The code overlays a leaf or an internal node on the bytes of a page by
  \<^verbatim>\<open>reinterpret_cast\<close>; one record serves both views.  \<open>node_array\<close> is the flexible array
  \<^verbatim>\<open>array_\<close>: the list holds the slots written so far, a slot behind them reads as zero
  (\<^verbatim>\<open>NewPage\<close> zeroes the page), and slots at or behind \<open>node_size\<close> keep their old
  content, as the memory of the page does.  The functions of the internal page are those
  of the later of the two versions of \<^verbatim>\<open>b_plus_tree_internal_page.cpp\<close> among the sources,
  the one that has what \<^verbatim>\<open>b_plus_tree.cpp\<close> calls; \<^verbatim>\<open>SetKeyAt\<close> is the same in both.
\<close>

datatype IndexPageType = INVALID_INDEX_PAGE | LEAF_PAGE | INTERNAL_PAGE

record BPlusTreePage =
  node_page_type :: IndexPageType
  node_size :: int
  node_max_size :: int
  node_parent_page_id :: page_id_t
  node_page_id :: page_id_t
  node_is_root :: bool
  node_next_page_id :: page_id_t
  node_array :: "(int \<times> int) list"

definition zeroed_page :: BPlusTreePage where
  "zeroed_page =
     \<lparr>node_page_type = INVALID_INDEX_PAGE, node_size = 0, node_max_size = 0,
      node_parent_page_id = 0, node_page_id = 0, node_is_root = False,
      node_next_page_id = 0, node_array = []\<rparr>"

definition comparator :: "int \<Rightarrow> int \<Rightarrow> int" where
  "comparator a b = (if a < b then -1 else if a > b then 1 else 0)"

definition IsLeafPage :: "BPlusTreePage \<Rightarrow> bool" where
  "IsLeafPage p = (node_page_type p = LEAF_PAGE)"

definition IncreaseSize :: "int \<Rightarrow> BPlusTreePage \<Rightarrow> BPlusTreePage" where
  "IncreaseSize amount p = p\<lparr>node_size := node_size p + amount\<rparr>"

definition array_read :: "(int \<times> int) list \<Rightarrow> int \<Rightarrow> int \<times> int" where
  "array_read a i = (if 0 \<le> i \<and> i < int (length a) then a ! nat i else (0, 0))"

definition array_write :: "(int \<times> int) list \<Rightarrow> int \<Rightarrow> int \<times> int \<Rightarrow> (int \<times> int) list" where
  "array_write a i kv =
     (if i < 0 then a
      else if i < int (length a) then a[nat i := kv]
      else a @ replicate (nat i - length a) (0, 0) @ [kv])"

definition Leaf_Init :: "page_id_t \<Rightarrow> page_id_t \<Rightarrow> int \<Rightarrow> BPlusTreePage \<Rightarrow> BPlusTreePage" where
  "Leaf_Init pid parent_id max_sz p =
     p\<lparr>node_page_id := pid, node_parent_page_id := parent_id, node_max_size := max_sz,
       node_size := 0, node_next_page_id := INVALID_PAGE_ID\<rparr>"

definition Internal_Init :: "page_id_t \<Rightarrow> page_id_t \<Rightarrow> int \<Rightarrow> BPlusTreePage \<Rightarrow> BPlusTreePage" where
  "Internal_Init pid parent_id max_sz p =
     p\<lparr>node_page_id := pid, node_parent_page_id := parent_id, node_max_size := max_sz,
       node_page_type := INTERNAL_PAGE, node_size := 0\<rparr>"

definition KeyAt :: "BPlusTreePage \<Rightarrow> int \<Rightarrow> int" where
  "KeyAt p index = fst (array_read (node_array p) index)"

definition ValueAt :: "BPlusTreePage \<Rightarrow> int \<Rightarrow> int" where
  "ValueAt p index = snd (array_read (node_array p) index)"

definition GetPairAtIndex :: "BPlusTreePage \<Rightarrow> int \<Rightarrow> int \<times> int" where
  "GetPairAtIndex p index = array_read (node_array p) index"

text \<open>
  \<^verbatim>\<open>BPlusTreeInternalPage::SetKeyAt\<close>: \<^verbatim>\<open>auto existing_pair = array_[index]\<close> copies the
  slot into a local variable, and the assignment changes the copy.
\<close>

definition SetKeyAt :: "int \<Rightarrow> int \<Rightarrow> BPlusTreePage \<Rightarrow> BPlusTreePage" where
  "SetKeyAt index key p =
     (let existing_pair = array_read (node_array p) index;
          existing_pair = (key, snd existing_pair)
      in p)"

definition PutKeyValuePairAt :: "int \<Rightarrow> int \<times> int \<Rightarrow> BPlusTreePage \<Rightarrow> BPlusTreePage" where
  "PutKeyValuePairAt idx kv p = p\<lparr>node_array := array_write (node_array p) idx kv\<rparr>"

text \<open>
  \<^verbatim>\<open>ShiftUnderlyingArray\<close> copies the slots \<open>start_idx .. size - 1\<close> to \<^verbatim>\<open>temp\<close> and writes
  them back one slot higher; \<open>shift_by\<close> is not used by the code.
\<close>

definition ShiftUnderlyingArray :: "int \<Rightarrow> int \<Rightarrow> BPlusTreePage \<Rightarrow> BPlusTreePage" where
  "ShiftUnderlyingArray start_idx shift_by p =
     (let elems = node_size p;
          temp = node_array p
      in p\<lparr>node_array :=
             fold (\<lambda>i a. array_write a (i + 1) (array_read temp i)) [start_idx .. elems - 1]
               (node_array p)\<rparr>)"

definition InsertKVPairAt :: "int \<Rightarrow> int \<times> int \<Rightarrow> BPlusTreePage \<Rightarrow> BPlusTreePage" where
  "InsertKVPairAt idx kv p =
     IncreaseSize 1 (PutKeyValuePairAt idx kv (ShiftUnderlyingArray idx 1 p))"

definition AddKVPair :: "int \<times> int \<Rightarrow> BPlusTreePage \<Rightarrow> BPlusTreePage" where
  "AddKVPair kv p =
     (let idx = node_size p
      in IncreaseSize 1 (PutKeyValuePairAt idx kv (ShiftUnderlyingArray idx 1 p)))"

text \<open>
  The binary search of \<^verbatim>\<open>FindIndexInLeafPageJustGreaterThanKey\<close> and
  \<^verbatim>\<open>FindIndexInInternalPageJustGreaterThanKey\<close>, which differ in the first value of
  \<^verbatim>\<open>low\<close> only.
\<close>

function search_loop :: "BPlusTreePage \<Rightarrow> int \<Rightarrow> int \<Rightarrow> int \<Rightarrow> int \<Rightarrow> int" where
  "search_loop p key low high result =
     (if low \<le> high then
        (let mid = (low + high) div 2;
             comparison = comparator key (KeyAt p mid)
         in if comparison = 0 then -1
            else if comparison = 1 then search_loop p key (mid + 1) high result
            else search_loop p key low (mid - 1) mid)
      else (if result = -1 then node_size p else result))"
  by pat_completeness auto
termination
  by (relation "measure (\<lambda>(p, key, low, high, result). nat (high - low + 1))") auto

definition FindIndexInLeafPageJustGreaterThanKey :: "BPlusTreePage \<Rightarrow> int \<Rightarrow> int" where
  "FindIndexInLeafPageJustGreaterThanKey p key = search_loop p key 0 (node_size p - 1) (-1)"

definition FindIndexInInternalPageJustGreaterThanKey :: "BPlusTreePage \<Rightarrow> int \<Rightarrow> int" where
  "FindIndexInInternalPageJustGreaterThanKey p key = search_loop p key 1 (node_size p - 1) (-1)"

text \<open>\<^verbatim>\<open>RemoveAtIndex\<close> of the leaf page, and of the internal page with its range check.\<close>

definition Leaf_RemoveAtIndex :: "int \<Rightarrow> BPlusTreePage \<Rightarrow> bool \<times> BPlusTreePage" where
  "Leaf_RemoveAtIndex index p =
     (let a = fold (\<lambda>i a. array_write a (i - 1) (array_read a i)) [index + 1 .. node_size p - 1]
                (node_array p)
      in (True, p\<lparr>node_array := a, node_size := node_size p - 1\<rparr>))"

definition Internal_RemoveAtIndex :: "int \<Rightarrow> BPlusTreePage \<Rightarrow> bool \<times> BPlusTreePage" where
  "Internal_RemoveAtIndex index p =
     (if index < 0 \<or> index \<ge> node_size p then (False, p)
      else
        (let a = fold (\<lambda>i a. array_write a (i - 1) (array_read a i))
                   [index + 1 .. node_size p - 1] (node_array p)
         in (True, p\<lparr>node_array := a, node_size := node_size p - 1\<rparr>)))"

definition FindNextPageId :: "BPlusTreePage \<Rightarrow> page_id_t \<Rightarrow> page_id_t" where
  "FindNextPageId p curr_page_id =
     (case find (\<lambda>idx. ValueAt p idx = curr_page_id \<and> idx \<le> node_size p - 1)
             [0 .. node_size p - 1] of
        Some idx \<Rightarrow> ValueAt p (idx + 1)
      | None \<Rightarrow> INVALID_PAGE_ID)"

definition FindPreviousPageId :: "BPlusTreePage \<Rightarrow> page_id_t \<Rightarrow> page_id_t" where
  "FindPreviousPageId p curr_page_id =
     (case find (\<lambda>idx. ValueAt p idx = curr_page_id \<and> idx > 0) [0 .. node_size p - 1] of
        Some idx \<Rightarrow> ValueAt p (idx - 1)
      | None \<Rightarrow> INVALID_PAGE_ID)"

definition RemovePageId :: "page_id_t \<Rightarrow> BPlusTreePage \<Rightarrow> bool \<times> BPlusTreePage" where
  "RemovePageId curr_page_id p =
     (case find (\<lambda>i. ValueAt p i = curr_page_id) [0 .. node_size p - 1] of
        Some i \<Rightarrow> Internal_RemoveAtIndex i p
      | None \<Rightarrow> (False, p))"

section \<open>B+ tree (\<^verbatim>\<open>b_plus_tree.cpp\<close>)\<close>

text \<open>
  The tree reaches its nodes through \<^verbatim>\<open>FetchPage\<close> and \<^verbatim>\<open>NewPage\<close> of the buffer pool and
  never unpins or deletes one.  The pool, as the tree sees it, has three parts.
  \<open>tree_pages\<close> holds the pages that sit pinned in a frame, by page id; a pointer to a
  node is the id of its page, and two pointers to one page alias: every access goes
  through the store.  \<open>frames_left\<close> counts the frames that are free or evictable, the ones
  \<^verbatim>\<open>NewPgImp\<close> and \<^verbatim>\<open>FetchPgImp\<close> can still take; a page the tree obtains is never unpinned,
  so each frame taken stays taken.  \<open>backing\<close> holds what the pool reads from the disk
  for a page that is not pinned in a frame.
\<close>

record BPlusTree =
  root_page_id :: page_id_t
  leaf_max_size :: int
  internal_max_size :: int
  tree_pages :: "(page_id_t \<times> BPlusTreePage) list"
  pool_next_page_id :: page_id_t
  frames_left :: nat
  backing :: "(page_id_t \<times> BPlusTreePage) list"

text \<open>
  The tree of the constructor over a new pool of \<open>n\<close> frames in which the header page,
  page 0, has been allocated by \<^verbatim>\<open>NewPage\<close> and is still pinned (\<open>n\<close> is at least 1);
  \<open>BPlusTree_new\<close> takes a pool of 50 frames.
\<close>

definition BPlusTree_in_pool :: "nat \<Rightarrow> int \<Rightarrow> int \<Rightarrow> BPlusTree" where
  "BPlusTree_in_pool n leaf_max internal_max =
     \<lparr>root_page_id = INVALID_PAGE_ID, leaf_max_size = leaf_max,
      internal_max_size = internal_max, tree_pages = [(0, zeroed_page)],
      pool_next_page_id = 1, frames_left = n - 1, backing = []\<rparr>"

definition BPlusTree_new :: "int \<Rightarrow> int \<Rightarrow> BPlusTree" where
  "BPlusTree_new leaf_max internal_max = BPlusTree_in_pool 50 leaf_max internal_max"

definition IsEmpty :: "BPlusTree \<Rightarrow> bool" where
  "IsEmpty t = (root_page_id t = INVALID_PAGE_ID)"

text \<open>
  Modelled from the spec: the disk manager is no part of these sources; its
  \<^verbatim>\<open>ReadPage(page_id, out_buf)\<close> reads the page of that id from the backing file into the
  buffer.  What it reads is a parameter of the state, the list \<open>backing\<close>.
  \<^verbatim>\<open>FetchPgImp\<close> zeroes the frame (\<^verbatim>\<open>ResetMemory\<close>) before the read, and for an id that
  \<open>backing\<close> has no page for the frame stays zeroed.
\<close>

definition disk_page :: "BPlusTree \<Rightarrow> page_id_t \<Rightarrow> BPlusTreePage" where
  "disk_page t pid = (case umap_find (backing t) pid of Some n \<Rightarrow> n | None \<Rightarrow> zeroed_page)"

text \<open>
  \<^verbatim>\<open>buffer_pool_manager_->FetchPage(pid)->GetData()\<close>.  \<^verbatim>\<open>FetchPgImp\<close> returns the frame of
  a page that is in the page table; otherwise it takes a free or an evictable frame,
  reads the page into it and returns it; it returns \<^verbatim>\<open>nullptr\<close> only when there is no
  such frame, and \<^verbatim>\<open>->GetData()\<close> on that is the null dereference.
\<close>

definition fetch :: "BPlusTree \<Rightarrow> page_id_t \<Rightarrow> error + page_id_t \<times> BPlusTree" where
  "fetch t pid =
     (case umap_find (tree_pages t) pid of
        Some _ \<Rightarrow> Inr (pid, t)
      | None \<Rightarrow>
          if frames_left t = 0 then Inl NullDereference
          else Inr (pid, t\<lparr>tree_pages := tree_pages t @ [(pid, disk_page t pid)],
                            frames_left := frames_left t - 1\<rparr>))"

text \<open>
  Reading and writing through a pointer that \<open>fetch\<close> or \<open>NewPage\<close> returned; such a
  pointer always has its page in the store.
\<close>

definition deref :: "BPlusTree \<Rightarrow> page_id_t \<Rightarrow> BPlusTreePage" where
  "deref t ptr = (case umap_find (tree_pages t) ptr of Some n \<Rightarrow> n | None \<Rightarrow> zeroed_page)"

definition modify :: "page_id_t \<Rightarrow> (BPlusTreePage \<Rightarrow> BPlusTreePage) \<Rightarrow> BPlusTree \<Rightarrow> BPlusTree" where
  "modify ptr f t = t\<lparr>tree_pages := umap_assign ptr (f (deref t ptr)) (tree_pages t)\<rparr>"

text \<open>
  \<^verbatim>\<open>buffer_pool_manager_->NewPage(&id)->GetData()\<close>.  \<^verbatim>\<open>NewPgImp\<close> takes a free or an
  evictable frame, gives it the next page id and zeroes it; without such a frame it
  returns \<^verbatim>\<open>nullptr\<close> and allocates no id.
\<close>

definition NewPage :: "BPlusTree \<Rightarrow> error + page_id_t \<times> BPlusTree" where
  "NewPage t =
     (if frames_left t = 0 then Inl NullDereference
      else
        Inr (pool_next_page_id t,
             t\<lparr>tree_pages :=
                 (if umap_find (tree_pages t) (pool_next_page_id t) = None
                  then tree_pages t @ [(pool_next_page_id t, zeroed_page)]
                  else umap_assign (pool_next_page_id t) zeroed_page (tree_pages t)),
               pool_next_page_id := pool_next_page_id t + 1,
               frames_left := frames_left t - 1\<rparr>))"

text \<open>
  Sequencing of steps that may crash (\<open>Some (Inl e)\<close>) or run out of fuel (\<open>None\<close>);
  \<open>step\<close> is for a first part that takes no fuel.
\<close>

definition bind_res ::
    "(error + 'a) option \<Rightarrow> ('a \<Rightarrow> (error + 'b) option) \<Rightarrow> (error + 'b) option" where
  "bind_res m f = (case m of None \<Rightarrow> None | Some (Inl e) \<Rightarrow> Some (Inl e) | Some (Inr x) \<Rightarrow> f x)"

definition step :: "error + 'a \<Rightarrow> ('a \<Rightarrow> (error + 'b) option) \<Rightarrow> (error + 'b) option" where
  "step m f = (case m of Inl e \<Rightarrow> Some (Inl e) | Inr x \<Rightarrow> f x)"

text \<open>
  The loop \<^verbatim>\<open>for (i = 1; i < GetSize(); i++)\<close> that stops at the first key greater than
  \<open>key\<close>; the result is the value of \<open>i\<close> after the loop.
\<close>

function first_key_greater :: "BPlusTreePage \<Rightarrow> int \<Rightarrow> int \<Rightarrow> int" where
  "first_key_greater p key i =
     (if i < node_size p then
        (if comparator (KeyAt p i) key = 1 then i else first_key_greater p key (i + 1))
      else i)"
  by pat_completeness auto
termination
  by (relation "measure (\<lambda>(p, key, i). nat (node_size p - i))") auto

text \<open>
  The descent \<^verbatim>\<open>while (!curr_page->IsLeafPage())\<close>, which \<^verbatim>\<open>GetValue\<close>, \<^verbatim>\<open>Insert\<close> and
  \<^verbatim>\<open>Remove\<close> each contain.  It follows child pointers as long as it meets no leaf, so
  it takes fuel.
\<close>

fun descend_to_leaf ::
    "nat \<Rightarrow> BPlusTree \<Rightarrow> int \<Rightarrow> page_id_t \<Rightarrow> (error + page_id_t \<times> BPlusTree) option" where
  "descend_to_leaf 0 t key curr_page = None"
| "descend_to_leaf (Suc fuel) t key curr_page =
     (if IsLeafPage (deref t curr_page) then Some (Inr (curr_page, t))
      else
        (let i = first_key_greater (deref t curr_page) key 1;
             next_page_id = ValueAt (deref t curr_page) (i - 1)
         in case fetch t next_page_id of
              Inl e \<Rightarrow> Some (Inl e)
            | Inr (p, t1) \<Rightarrow> descend_to_leaf fuel t1 key p))"

text \<open>
  \<^verbatim>\<open>GetValue\<close>: the boolean, the result vector after the call, and the state of the pool
  after the fetches.
\<close>

definition GetValue ::
    "nat \<Rightarrow> BPlusTree \<Rightarrow> int \<Rightarrow> int list \<Rightarrow> (error + bool \<times> int list \<times> BPlusTree) option" where
  "GetValue fuel t key result =
     step (fetch t (root_page_id t))
       (\<lambda>(curr_page, t1).
          bind_res (descend_to_leaf fuel t1 key curr_page)
            (\<lambda>(leaf, t2).
               case find (\<lambda>i. comparator key (KeyAt (deref t2 leaf) i) = 0)
                      [0 .. node_size (deref t2 leaf) - 1] of
                 Some i \<Rightarrow> Some (Inr (True, result @ [ValueAt (deref t2 leaf) i], t2))
               | None \<Rightarrow> Some (Inr (False, result, t2))))"

text \<open>
  \<^verbatim>\<open>UpdateRootPageId\<close> fetches the header page (page 0), calls \<^verbatim>\<open>UpdateRecord\<close> through
  the pointer without a null check, and unpins the page: the pin it took is given back,
  so the pool is as before the call.

  Modelled from the spec: the header page (class \<^verbatim>\<open>HeaderPage\<close>) stores the records
  index name \<rightarrow> root page id; it is no node of the tree, and \<^verbatim>\<open>UpdateRecord\<close> changes
  no node.
\<close>

definition UpdateRootPageId :: "BPlusTree \<Rightarrow> error + BPlusTree" where
  "UpdateRootPageId t =
     (case fetch t 0 of
        Inl e \<Rightarrow> Inl e
      | Inr (header_page, t1) \<Rightarrow> Inr t)"

definition InsertAndUpdateParentPage ::
    "page_id_t \<Rightarrow> int \<Rightarrow> int \<Rightarrow> page_id_t \<Rightarrow> BPlusTree \<Rightarrow> error + BPlusTree" where
  "InsertAndUpdateParentPage insertTo idx key val t =
     (let t1 = modify insertTo (InsertKVPairAt idx (key, val)) t
      in case fetch t1 val of
           Inl e \<Rightarrow> Inl e
         | Inr (child_page, t2) \<Rightarrow>
             Inr (modify child_page
                    (\<lambda>c. c\<lparr>node_parent_page_id := node_page_id (deref t2 insertTo)\<rparr>) t2))"

text \<open>
  The loop of \<^verbatim>\<open>InsertIntoInternalPage\<close> that copies the slots from \<open>mid\<close> on to the new
  page and re-parents the children.
\<close>

fun move_children ::
    "page_id_t \<Rightarrow> page_id_t \<Rightarrow> int \<Rightarrow> int list \<Rightarrow> BPlusTree \<Rightarrow> error + BPlusTree" where
  "move_children internalPage new_internal_page mid [] t = Inr t"
| "move_children internalPage new_internal_page mid (i # rest) t =
     (let childPageId = ValueAt (deref t internalPage) i;
          t1 = modify new_internal_page
                 (PutKeyValuePairAt (i - mid) (KeyAt (deref t internalPage) i, childPageId)) t
      in case fetch t1 childPageId of
           Inl e \<Rightarrow> Inl e
         | Inr (childPage, t2) \<Rightarrow>
             move_children internalPage new_internal_page mid rest
               (modify childPage (\<lambda>c. c\<lparr>node_parent_page_id := new_internal_page\<rparr>) t2))"

text \<open>
  The allocation of a new root in \<^verbatim>\<open>InsertIntoInternalPage\<close> and
  \<^verbatim>\<open>SplitLeafPageAndAddKey\<close>: \<^verbatim>\<open>NewPage\<close>, \<^verbatim>\<open>Init\<close>, \<^verbatim>\<open>SetIsRootPage(true)\<close>, the assignment
  to \<^verbatim>\<open>root_page_id_\<close> and \<^verbatim>\<open>UpdateRootPageId()\<close>.
\<close>

definition new_root_page :: "BPlusTree \<Rightarrow> error + page_id_t \<times> BPlusTree" where
  "new_root_page t =
     (case NewPage t of
        Inl e \<Rightarrow> Inl e
      | Inr (new_parent_page_id, t1) \<Rightarrow>
          (let t2 = modify new_parent_page_id
                      (\<lambda>p. (Internal_Init new_parent_page_id INVALID_PAGE_ID
                               (internal_max_size t1) p)\<lparr>node_is_root := True\<rparr>) t1
           in case UpdateRootPageId (t2\<lparr>root_page_id := new_parent_page_id\<rparr>) of
                Inl e \<Rightarrow> Inl e
              | Inr t3 \<Rightarrow> Inr (new_parent_page_id, t3)))"

fun InsertIntoInternalPage ::
    "nat \<Rightarrow> page_id_t \<Rightarrow> int \<Rightarrow> page_id_t \<Rightarrow> BPlusTree \<Rightarrow> (error + bool \<times> BPlusTree) option" where
  "InsertIntoInternalPage 0 internalPage key val t = None"
| "InsertIntoInternalPage (Suc fuel) internalPage key val t =
     (if node_size (deref t internalPage) = internal_max_size t then
        step (NewPage t)
          (\<lambda>(new_internal_page_id, t1).
        (let t2 = modify new_internal_page_id
                    (\<lambda>p. (Internal_Init new_internal_page_id INVALID_PAGE_ID (leaf_max_size t1) p)
                            \<lparr>node_page_type := INTERNAL_PAGE, node_is_root := False\<rparr>) t1;
             index_to_insert =
               FindIndexInInternalPageJustGreaterThanKey (deref t2 internalPage) key
         in if index_to_insert = -1 then Some (Inr (False, t2))
            else
              (let mid0 = node_size (deref t2 internalPage) div 2;
                   mid = (if index_to_insert > mid0 then mid0 + 1 else mid0);
                   count_being_moved = node_size (deref t2 internalPage) - mid
               in step (move_children internalPage new_internal_page_id mid
                          [mid .. node_size (deref t2 internalPage) - 1] t2)
                    (\<lambda>t3.
              (let t4 = modify internalPage (\<lambda>p. p\<lparr>node_size := mid, node_is_root := False\<rparr>) t3;
                   t5 = modify new_internal_page_id (\<lambda>p. p\<lparr>node_size := count_being_moved\<rparr>) t4
               in step (if index_to_insert < internal_max_size t5 \<and> index_to_insert \<le> mid
                        then InsertAndUpdateParentPage internalPage index_to_insert key val t5
                        else InsertAndUpdateParentPage new_internal_page_id
                               (index_to_insert - mid) key val t5)
                    (\<lambda>t6.
              (let parent_page_id = node_parent_page_id (deref t6 internalPage)
               in bind_res
                    (if parent_page_id = INVALID_PAGE_ID then
                       step (new_root_page t6)
                         (\<lambda>(new_parent_page_id, t9).
                            bind_res
                              (InsertIntoInternalPage fuel new_parent_page_id
                                 (KeyAt (deref t9 internalPage) 0)
                                 (node_page_id (deref t9 internalPage)) t9)
                              (\<lambda>(_, t10).
                                 Some (Inr (new_parent_page_id, new_parent_page_id,
                                   modify internalPage
                                     (\<lambda>p. p\<lparr>node_parent_page_id := new_parent_page_id\<rparr>) t10))))
                     else
                       step (fetch t6 parent_page_id)
                         (\<lambda>(parent_page, t7). Some (Inr (parent_page, parent_page_id, t7))))
                    (\<lambda>(parent_page, parent_page_id, t11).
                       bind_res
                         (InsertIntoInternalPage fuel parent_page
                            (KeyAt (deref t11 new_internal_page_id) 0) new_internal_page_id t11)
                         (\<lambda>(_, t12).
                            Some (Inr (True,
                              modify new_internal_page_id
                                (\<lambda>p. p\<lparr>node_parent_page_id := parent_page_id\<rparr>) t12)))))))))))
      else
        (let index_to_insert =
               FindIndexInInternalPageJustGreaterThanKey (deref t internalPage) key
         in if index_to_insert = -1 then Some (Inr (False, t))
            else
              step (InsertAndUpdateParentPage internalPage index_to_insert key val t)
                (\<lambda>t1. Some (Inr (True, t1)))))"

text \<open>
  \<^verbatim>\<open>SplitLeafPageAndAddKey\<close>: the result is the \<^verbatim>\<open>page_id_t\<close> that the function returns,
  \<open>-1\<close> for a key that the leaf already holds.
\<close>

definition SplitLeafPageAndAddKey ::
    "nat \<Rightarrow> page_id_t \<Rightarrow> int \<Rightarrow> int \<Rightarrow> BPlusTree \<Rightarrow> (error + page_id_t \<times> BPlusTree) option" where
  "SplitLeafPageAndAddKey fuel leafPage key val t =
     (let index_to_insert = FindIndexInLeafPageJustGreaterThanKey (deref t leafPage) key
      in if index_to_insert = -1 then Some (Inr (-1, t))
         else
           step (NewPage t)
             (\<lambda>(new_leaf_page_id, t1).
           (let t2 = modify new_leaf_page_id
                       (\<lambda>p. (Leaf_Init new_leaf_page_id INVALID_PAGE_ID (leaf_max_size t1) p)
                               \<lparr>node_page_type := LEAF_PAGE, node_is_root := False\<rparr>) t1;
                mid0 = node_size (deref t2 leafPage) div 2;
                mid = (if index_to_insert > mid0 then mid0 + 1 else mid0);
                count_being_moved = node_size (deref t2 leafPage) - mid;
                t3 = fold (\<lambda>i s. modify new_leaf_page_id
                                    (PutKeyValuePairAt (i - mid)
                                       (KeyAt (deref s leafPage) i, ValueAt (deref s leafPage) i)) s)
                       [mid .. node_size (deref t2 leafPage) - 1] t2;
                t4 = modify leafPage
                       (\<lambda>p. p\<lparr>node_size := mid, node_next_page_id := new_leaf_page_id,
                               node_is_root := False\<rparr>) t3;
                t5 = modify new_leaf_page_id (\<lambda>p. p\<lparr>node_size := count_being_moved\<rparr>) t4;
                t6 = (if index_to_insert < leaf_max_size t5 \<and> index_to_insert \<le> mid
                      then modify leafPage (InsertKVPairAt index_to_insert (key, val)) t5
                      else modify new_leaf_page_id
                             (InsertKVPairAt (index_to_insert - mid) (key, val)) t5);
                parent_page_id = node_parent_page_id (deref t6 leafPage)
            in bind_res
                 (if parent_page_id = INVALID_PAGE_ID then
                    step (new_root_page t6)
                      (\<lambda>(new_parent_page_id, t9).
                         bind_res
                           (InsertIntoInternalPage fuel new_parent_page_id
                              (KeyAt (deref t9 leafPage) 0) (node_page_id (deref t9 leafPage)) t9)
                           (\<lambda>(_, t10). Some (Inr (new_parent_page_id, t10))))
                  else
                    step (fetch t6 parent_page_id)
                      (\<lambda>(parent_page, t7). Some (Inr (parent_page, t7))))
                 (\<lambda>(parent_page, t11).
                    bind_res
                      (InsertIntoInternalPage fuel parent_page
                         (KeyAt (deref t11 new_leaf_page_id) 0) new_leaf_page_id t11)
                      (\<lambda>(_, t12). Some (Inr (new_leaf_page_id, t12)))))))"

text \<open>
  \<^verbatim>\<open>Insert\<close>.  The \<^verbatim>\<open>page_id_t\<close> returned by \<^verbatim>\<open>SplitLeafPageAndAddKey\<close> is converted to
  the \<^verbatim>\<open>bool\<close> that \<^verbatim>\<open>Insert\<close> returns: every value but 0 becomes \<^verbatim>\<open>true\<close>.
\<close>

definition BPlusTree_Insert ::
    "nat \<Rightarrow> int \<Rightarrow> int \<Rightarrow> BPlusTree \<Rightarrow> (error + bool \<times> BPlusTree) option" where
  "BPlusTree_Insert fuel key val t =
     step (if root_page_id t = INVALID_PAGE_ID then
             (case NewPage t of
                Inl e \<Rightarrow> Inl e
              | Inr (new_root, t1) \<Rightarrow>
                  (let t2 = t1\<lparr>root_page_id := new_root\<rparr>
                   in Inr (modify new_root
                        (\<lambda>p. (Leaf_Init (root_page_id t2) INVALID_PAGE_ID (leaf_max_size t2) p)
                                \<lparr>node_page_type := LEAF_PAGE, node_is_root := True\<rparr>) t2)))
           else Inr t)
       (\<lambda>t0.
          step (fetch t0 (root_page_id t0))
            (\<lambda>(curr_page, t0').
               bind_res (descend_to_leaf fuel t0' key curr_page)
                 (\<lambda>(leaf, t1).
                    if node_size (deref t1 leaf) = leaf_max_size t1 then
                      bind_res (SplitLeafPageAndAddKey fuel leaf key val t1)
                        (\<lambda>(res, t2). Some (Inr (res \<noteq> 0, t2)))
                    else
                      (let i = FindIndexInLeafPageJustGreaterThanKey (deref t1 leaf) key
                       in if i = -1 then Some (Inr (False, t1))
                          else Some (Inr (True, modify leaf (InsertKVPairAt i (key, val)) t1))))))"

text \<open>
  \<^verbatim>\<open>MergeLeafNode\<close> and \<^verbatim>\<open>MergeInternalNode\<close> run the same loop
  \<^verbatim>\<open>for (i = 0; i < from->GetSize(); i++) to->AddKVPair(...)\<close>.  The bound is read again
  in every round, and when both pointers are one page it grows with the page: the loop
  takes fuel.
\<close>

fun merge_loop :: "nat \<Rightarrow> page_id_t \<Rightarrow> page_id_t \<Rightarrow> int \<Rightarrow> BPlusTree \<Rightarrow> BPlusTree option" where
  "merge_loop 0 fromPage toPage i t = None"
| "merge_loop (Suc fuel) fromPage toPage i t =
     (if i < node_size (deref t fromPage) then
        merge_loop fuel fromPage toPage (i + 1)
          (modify toPage
             (AddKVPair (KeyAt (deref t fromPage) i, ValueAt (deref t fromPage) i)) t)
      else Some t)"

definition MergeLeafNode ::
    "nat \<Rightarrow> page_id_t \<Rightarrow> page_id_t \<Rightarrow> BPlusTree \<Rightarrow> (error + bool \<times> BPlusTree) option" where
  "MergeLeafNode fuel fromLeafPage toLeafPage t =
     (case merge_loop fuel fromLeafPage toLeafPage 0 t of
        None \<Rightarrow> None
      | Some t' \<Rightarrow> Some (Inr (True, t')))"

definition MergeInternalNode ::
    "nat \<Rightarrow> page_id_t \<Rightarrow> page_id_t \<Rightarrow> BPlusTree \<Rightarrow> (error + bool \<times> BPlusTree) option" where
  "MergeInternalNode fuel fromPage toPage t =
     (case merge_loop fuel fromPage toPage 0 t of
        None \<Rightarrow> None
      | Some t' \<Rightarrow> Some (Inr (True, t')))"

text \<open>
  \<^verbatim>\<open>RemoveFromParentPage\<close> and \<^verbatim>\<open>CoalesceInternalNode\<close> call each other up the tree.
  \<^verbatim>\<open>GetMaxSize() / 2\<close> divides a size that is not negative.
\<close>

fun RemoveFromParentPage ::
      "nat \<Rightarrow> page_id_t \<Rightarrow> BPlusTree \<Rightarrow> (error + bool \<times> BPlusTree) option"
  and CoalesceInternalNode ::
      "nat \<Rightarrow> page_id_t \<Rightarrow> BPlusTree \<Rightarrow> (error + bool \<times> BPlusTree) option" where
  "RemoveFromParentPage 0 bPlusTreePage t = None"
| "RemoveFromParentPage (Suc fuel) bPlusTreePage t =
     (let parent_page_id = node_parent_page_id (deref t bPlusTreePage)
      in case fetch t parent_page_id of
           Inl e \<Rightarrow> Some (Inl e)
         | Inr (parent_page, t0) \<Rightarrow>
             (let (removed, parent') =
                    RemovePageId (node_page_id (deref t0 bPlusTreePage)) (deref t0 parent_page);
                  t1 = modify parent_page (\<lambda>_. parent') t0
              in if removed then CoalesceInternalNode fuel parent_page t1
                 else Some (Inr (False, t1))))"
| "CoalesceInternalNode 0 internalPage t = None"
| "CoalesceInternalNode (Suc fuel) internalPage t =
     (if node_size (deref t internalPage) \<ge> node_max_size (deref t internalPage) div 2
      then Some (Inr (False, t))
      else
        (case fetch t (node_parent_page_id (deref t internalPage)) of
           Inl e \<Rightarrow> Some (Inl e)
         | Inr (parent_page, ta) \<Rightarrow>
        (let right_page_id =
               FindNextPageId (deref ta parent_page) (node_page_id (deref ta internalPage))
         in case fetch ta right_page_id of
              Inl e \<Rightarrow> Some (Inl e)
            | Inr (right_page, tb) \<Rightarrow>
                if node_size (deref tb right_page) + node_size (deref tb internalPage)
                     < internal_max_size tb
                then bind_res (MergeInternalNode fuel right_page internalPage tb)
                       (\<lambda>(_, t1). RemoveFromParentPage fuel right_page t1)
                else
                  (let left_page_id =
                         FindPreviousPageId (deref tb parent_page)
                           (node_page_id (deref tb internalPage))
                   in case fetch tb left_page_id of
                        Inl e \<Rightarrow> Some (Inl e)
                      | Inr (left_page, tc) \<Rightarrow>
                          if node_size (deref tc left_page) + node_size (deref tc internalPage)
                               < internal_max_size tc
                          then bind_res (MergeInternalNode fuel internalPage left_page tc)
                                 (\<lambda>(_, t1). RemoveFromParentPage fuel internalPage t1)
                          else Some (Inr (True, tc))))))"

definition CoalesceLeafNode ::
    "nat \<Rightarrow> page_id_t \<Rightarrow> BPlusTree \<Rightarrow> (error + bool \<times> BPlusTree) option" where
  "CoalesceLeafNode fuel leafPage t =
     (if node_size (deref t leafPage) > node_max_size (deref t leafPage) div 2
      then Some (Inr (False, t))
      else
        step (fetch t (node_parent_page_id (deref t leafPage)))
          (\<lambda>(parent_page, ta).
        (let right_leaf_page_id =
               FindNextPageId (deref ta parent_page) (node_page_id (deref ta leafPage))
         in step (fetch ta right_leaf_page_id)
              (\<lambda>(right_leaf_page, tb).
                if node_size (deref tb right_leaf_page) + node_size (deref tb leafPage)
                     < leaf_max_size tb
                then bind_res (MergeLeafNode fuel right_leaf_page leafPage tb)
                       (\<lambda>(_, t1).
                          bind_res (RemoveFromParentPage fuel right_leaf_page t1)
                            (\<lambda>(_, t2). Some (Inr (True, t2))))
                else
                  (let left_leaf_page_id =
                         FindPreviousPageId (deref tb parent_page)
                           (node_page_id (deref tb leafPage))
                   in step (fetch tb left_leaf_page_id)
                        (\<lambda>(left_leaf_page, tc).
                          if node_size (deref tc left_leaf_page) + node_size (deref tc leafPage)
                               < leaf_max_size tc
                          then bind_res (MergeLeafNode fuel leafPage left_leaf_page tc)
                                 (\<lambda>(_, t1).
                                    bind_res (RemoveFromParentPage fuel leafPage t1)
                                      (\<lambda>(_, t2). Some (Inr (True, t2))))
                          else Some (Inr (True, tc))))))))"

definition BPlusTree_Remove :: "nat \<Rightarrow> int \<Rightarrow> BPlusTree \<Rightarrow> (error + BPlusTree) option" where
  "BPlusTree_Remove fuel key t =
     step (fetch t (root_page_id t))
       (\<lambda>(curr_page, t0).
          bind_res (descend_to_leaf fuel t0 key curr_page)
            (\<lambda>(leaf, t').
               case find (\<lambda>i. comparator key (KeyAt (deref t' leaf) i) = 0)
                      [0 .. node_size (deref t' leaf) - 1] of
                 None \<Rightarrow> Some (Inr t')
               | Some i \<Rightarrow>
                   (let t1 = modify leaf (\<lambda>p. snd (Leaf_RemoveAtIndex i p)) t'
                    in if node_size (deref t1 leaf) \<le> node_max_size (deref t1 leaf) div 2
                       then bind_res (CoalesceLeafNode fuel leaf t1) (\<lambda>(_, t2). Some (Inr t2))
                       else Some (Inr t1))))"

section \<open>Index iterator (\<^verbatim>\<open>index_iterator.h\<close>, \<^verbatim>\<open>index_iterator.cpp\<close>)\<close>

text \<open>
  The iterator holds \<^verbatim>\<open>curr_page_id_\<close> and \<^verbatim>\<open>curr_page_id_idx_\<close>; its \<^verbatim>\<open>bpm_\<close> is the
  pool of the tree it ranges over, which its fetches may change.
\<close>

record IndexIterator =
  curr_page_id :: page_id_t
  curr_page_id_idx :: int

definition IsEnd :: "BPlusTree \<Rightarrow> IndexIterator \<Rightarrow> error + bool \<times> BPlusTree" where
  "IsEnd t it =
     (if curr_page_id it = INVALID_PAGE_ID then Inr (True, t)
      else
        (case fetch t (curr_page_id it) of
           Inl e \<Rightarrow> Inl e
         | Inr (curr_page, t1) \<Rightarrow>
             if \<not> IsLeafPage (deref t1 curr_page) then Inr (True, t1)
             else Inr (curr_page_id_idx it = node_size (deref t1 curr_page) - 1
                       \<and> node_next_page_id (deref t1 curr_page) = INVALID_PAGE_ID, t1)))"

text \<open>\<^verbatim>\<open>operator*\<close>\<close>

definition iterator_deref :: "BPlusTree \<Rightarrow> IndexIterator \<Rightarrow> error + (int \<times> int) \<times> BPlusTree" where
  "iterator_deref t it =
     (case fetch t (curr_page_id it) of
        Inl e \<Rightarrow> Inl e
      | Inr (curr_page, t1) \<Rightarrow>
          Inr (GetPairAtIndex (deref t1 curr_page) (curr_page_id_idx it), t1))"

text \<open>\<^verbatim>\<open>operator++\<close>\<close>

definition iterator_incr :: "BPlusTree \<Rightarrow> IndexIterator \<Rightarrow> error + IndexIterator \<times> BPlusTree" where
  "iterator_incr t it =
     (case IsEnd t it of
        Inl e \<Rightarrow> Inl e
      | Inr (True, t1) \<Rightarrow> Inr (it, t1)
      | Inr (False, t1) \<Rightarrow>
          (case fetch t1 (curr_page_id it) of
             Inl e \<Rightarrow> Inl e
           | Inr (curr_page, t2) \<Rightarrow>
               if curr_page_id_idx it = node_size (deref t2 curr_page) - 1
               then Inr (it\<lparr>curr_page_id_idx := 0,
                            curr_page_id := node_next_page_id (deref t2 curr_page)\<rparr>, t2)
               else Inr (it\<lparr>curr_page_id_idx := curr_page_id_idx it + 1\<rparr>, t2)))"

text \<open>\<^verbatim>\<open>operator!=\<close> of the header.\<close>

definition iterator_neq :: "IndexIterator \<Rightarrow> IndexIterator \<Rightarrow> bool" where
  "iterator_neq a b =
     (curr_page_id a \<noteq> curr_page_id b \<or> curr_page_id_idx a \<noteq> curr_page_id_idx b)"

text \<open>
  \<^verbatim>\<open>Begin()\<close> and \<^verbatim>\<open>End()\<close> both return \<^verbatim>\<open>INDEXITERATOR_TYPE()\<close>, an iterator that no
  statement of either function has pointed at a page of the tree.  The value such an
  iterator holds is the parameter \<open>fresh\<close>.
\<close>

definition Begin :: "IndexIterator \<Rightarrow> BPlusTree \<Rightarrow> IndexIterator" where
  "Begin fresh t = fresh"

definition End :: "IndexIterator \<Rightarrow> BPlusTree \<Rightarrow> IndexIterator" where
  "End fresh t = fresh"

text \<open>
  The scan \<^verbatim>\<open>for (it = Begin(); it != End(); ++it) visit(*it)\<close>: the pairs visited, in
  order, and the state of the pool after it.
\<close>

fun scan_loop ::
    "nat \<Rightarrow> BPlusTree \<Rightarrow> IndexIterator \<Rightarrow> IndexIterator \<Rightarrow> (int \<times> int) list
       \<Rightarrow> (error + (int \<times> int) list \<times> BPlusTree) option" where
  "scan_loop 0 t it end_it visited = None"
| "scan_loop (Suc fuel) t it end_it visited =
     (if iterator_neq it end_it then
        (case iterator_deref t it of
           Inl e \<Rightarrow> Some (Inl e)
         | Inr (kv, t1) \<Rightarrow>
             (case iterator_incr t1 it of
                Inl e \<Rightarrow> Some (Inl e)
              | Inr (it', t2) \<Rightarrow> scan_loop fuel t2 it' end_it (visited @ [kv])))
      else Some (Inr (visited, t)))"

definition scan_all ::
    "nat \<Rightarrow> IndexIterator \<Rightarrow> BPlusTree \<Rightarrow> (error + (int \<times> int) list \<times> BPlusTree) option" where
  "scan_all fuel fresh t = scan_loop fuel t (Begin fresh t) (End fresh t) []"

text \<open>Runs of insertions and removals, for building trees from the empty one.\<close>

fun insert_all :: "nat \<Rightarrow> int list \<Rightarrow> BPlusTree \<Rightarrow> (error + BPlusTree) option" where
  "insert_all fuel [] t = Some (Inr t)"
| "insert_all fuel (key # keys) t =
     bind_res (BPlusTree_Insert fuel key key t) (\<lambda>(_, t'). insert_all fuel keys t')"

fun remove_all :: "nat \<Rightarrow> int list \<Rightarrow> BPlusTree \<Rightarrow> (error + BPlusTree) option" where
  "remove_all fuel [] t = Some (Inr t)"
| "remove_all fuel (key # keys) t =
     bind_res (BPlusTree_Remove fuel key t) (\<lambda>t'. remove_all fuel keys t')"

section \<open>Runs of operations\<close>

text \<open>The frames of the replacer whose flag is set, in the order of the map.\<close>

definition evictable_frames :: "LRUKReplacer \<Rightarrow> frame_id_t list" where
  "evictable_frames r = map fst (filter (\<lambda>e. IsEvictable (snd e)) (frame_index_map r))"

text \<open>Insertions into a hash table, one after the other.\<close>

fun hash_insert_all ::
    "nat \<Rightarrow> ('k \<Rightarrow> nat) \<Rightarrow> ('k \<times> 'v) list \<Rightarrow> ('k, 'v) ExtendibleHashTable
       \<Rightarrow> (error + ('k, 'v) ExtendibleHashTable) option" where
  "hash_insert_all fuel hf [] h = Some (Inr h)"
| "hash_insert_all fuel hf (kv # kvs) h =
     bind_res (Insert fuel hf (fst kv) (snd kv) h) (hash_insert_all fuel hf kvs)"

text \<open>
  Operations of the buffer pool, one after the other; \<open>OpNewPage\<close> carries the clock
  reading of the access it records.
\<close>

datatype bpm_op = OpNewPage int | OpUnpinPage page_id_t bool | OpFlushAllPages

fun bpm_step ::
    "nat \<Rightarrow> bpm_op \<Rightarrow> BufferPoolManagerInstance \<Rightarrow> (error + BufferPoolManagerInstance) option" where
  "bpm_step fuel (OpNewPage nanos) b =
     bind_res (NewPgImp fuel nanos b) (\<lambda>(_, b'). Some (Inr b'))"
| "bpm_step fuel (OpUnpinPage pid dirty) b =
     (case UnpinPgImp pid dirty b of Inl e \<Rightarrow> Some (Inl e) | Inr (_, b') \<Rightarrow> Some (Inr b'))"
| "bpm_step fuel OpFlushAllPages b = Some (Inr (FlushAllPgsImp b))"

fun bpm_run ::
    "nat \<Rightarrow> bpm_op list \<Rightarrow> BufferPoolManagerInstance
       \<Rightarrow> (error + BufferPoolManagerInstance) option" where
  "bpm_run fuel [] b = Some (Inr b)"
| "bpm_run fuel (x # xs) b = bind_res (bpm_step fuel x b) (bpm_run fuel xs)"

text \<open>
  A pool of three frames after three calls of \<^verbatim>\<open>NewPage\<close>: the pages 0, 1 and 2 sit in
  the frames 0, 1 and 2, each pinned once.
\<close>

definition pool_three_pinned :: BufferPoolManagerInstance where
  "pool_three_pinned =
     (case bpm_run 10 [OpNewPage 1, OpNewPage 2, OpNewPage 3]
             (BufferPoolManagerInstance_new 2 4 3 2) of
        Some (Inr b) \<Rightarrow> b
      | _ \<Rightarrow> BufferPoolManagerInstance_new 2 4 3 2)"

text \<open>
  The candidate set of the replacer is ordered when each of its elements orders before
  every element behind it, as the elements of a \<^verbatim>\<open>std::set\<close> do.
\<close>

definition candidates_ordered :: "LRUKReplacer \<Rightarrow> bool" where
  "candidates_ordered r = sorted_wrt FrameAccessHistoryOrderComparison (frame_history_set r)"

section \<open>Properties\<close>

subsection \<open>Internal page: \<^verbatim>\<open>SetKeyAt\<close>\<close>

text \<open>
  C9.  For every node, index and key, \<^verbatim>\<open>BPlusTreeInternalPage::SetKeyAt\<close> returns the node
  as it was: the key is assigned to a local copy of the slot, so neither the slot nor any
  other field changes, and \<^verbatim>\<open>KeyAt\<close> reads the old key afterwards.
\<close>

theorem SetKeyAt_leaves_node_unchanged:
  "SetKeyAt index key p = p \<and> KeyAt (SetKeyAt index key p) i = KeyAt p i"
  by (simp add: SetKeyAt_def)

subsection \<open>LRU-K replacer\<close>

text \<open>
  C3.  The claim is that a frame just created by \<^verbatim>\<open>RecordAccess\<close> is no eviction
  candidate and is not counted by \<^verbatim>\<open>Size\<close>.  On a new replacer (7 frames, k = 2),
  \<^verbatim>\<open>RecordAccess(1)\<close> leaves no frame marked evictable, yet \<^verbatim>\<open>Size()\<close> is 1 and \<^verbatim>\<open>Evict\<close>
  returns frame 1, whose flag is false.
\<close>

theorem RecordAccess_new_frame_is_candidate:
  "(case RecordAccess 1 100 (LRUKReplacer_new 7 2) of
      Inl e \<Rightarrow> False
    | Inr r \<Rightarrow>
        evictable_count r = 0 \<and> Size r = 1
        \<and> map_option IsEvictable (umap_find (frame_index_map r) 1) = Some False
        \<and> fst (Evict r) = Some 1)"
  by code_simp

text \<open>
  C5.  The claim is that \<^verbatim>\<open>Evict\<close> returns the LRU-K victim among the evictable frames.
  After \<^verbatim>\<open>RecordAccess(1)\<close> at time 1, \<^verbatim>\<open>RecordAccess(2)\<close> at time 2 and
  \<^verbatim>\<open>SetEvictable(2, true)\<close>, frame 2 is the only evictable frame, and \<^verbatim>\<open>Evict\<close> returns
  frame 1.
\<close>

theorem Evict_returns_frame_outside_evictable_set:
  "(case replacer_run [OpRecordAccess 1 1, OpRecordAccess 2 2, OpSetEvictable 2 True]
           (LRUKReplacer_new 7 2) of
      Inl e \<Rightarrow> False
    | Inr r \<Rightarrow> evictable_frames r = [2] \<and> fst (Evict r) = Some 1)"
  by code_simp

text \<open>The comparison of the candidate set, written out, is transitive.\<close>

lemma comparison_iff:
  "FrameAccessHistoryOrderComparison x v \<longleftrightarrow>
     (length (access_history x) = look_back_size x
        \<and> length (access_history v) \<noteq> look_back_size v)
     \<or> ((length (access_history x) = look_back_size x)
           = (length (access_history v) = look_back_size v)
        \<and> last (access_history v) < last (access_history x))"
  by (auto simp: FrameAccessHistoryOrderComparison_def Let_def GetAccessHistorySize_def
        GetLookBackSize_def GetLastAccessRecord_def GetKthAccessRecord_def)

lemma comparison_trans:
  "FrameAccessHistoryOrderComparison a b \<Longrightarrow> FrameAccessHistoryOrderComparison b c \<Longrightarrow>
   FrameAccessHistoryOrderComparison a c"
  unfolding comparison_iff by auto

text \<open>Insertion into and erasure from an ordered list keep it ordered.\<close>

lemma set_set_insert: "set (set_insert lt x ys) \<subseteq> insert x (set ys)"
  by (induction ys) auto

lemma sorted_set_insert:
  assumes tr: "\<And>a b c. lt a b \<Longrightarrow> lt b c \<Longrightarrow> lt a c"
  shows "sorted_wrt lt ys \<Longrightarrow> sorted_wrt lt (set_insert lt x ys)"
proof (induction ys)
  case Nil
  then show ?case by simp
next
  case (Cons y ys)
  show ?case
  proof (cases "lt y x")
    case True
    have "\<forall>z \<in> set (set_insert lt x ys). lt y z"
      using set_set_insert [of lt x ys] True Cons.prems by auto
    with True Cons show ?thesis by simp
  next
    case False
    then show ?thesis
      using Cons.prems tr by auto
  qed
qed

lemma set_erase_first: "set (erase_first P ys) \<subseteq> set ys"
  by (induction ys) auto

lemma sorted_erase_first: "sorted_wrt lt ys \<Longrightarrow> sorted_wrt lt (erase_first P ys)"
proof (induction ys)
  case Nil
  then show ?case by simp
next
  case (Cons y ys)
  then show ?case
    using set_erase_first [of P ys] by auto
qed

lemma ordered_insert:
  "sorted_wrt FrameAccessHistoryOrderComparison ys \<Longrightarrow>
   sorted_wrt FrameAccessHistoryOrderComparison
     (set_insert FrameAccessHistoryOrderComparison x ys)"
  by (rule sorted_set_insert) (rule comparison_trans)

text \<open>Every operation of the replacer keeps the candidate set ordered.\<close>

lemma RecordAccess_ordered:
  "candidates_ordered r \<Longrightarrow> RecordAccess fid t r = Inr r' \<Longrightarrow> candidates_ordered r'"
  by (auto simp: candidates_ordered_def RecordAccess_def RemoveFrameFromSetInternal_def Let_def
        ordered_insert sorted_erase_first split: option.splits sum.splits if_splits)

lemma SetEvictable_ordered:
  "candidates_ordered r \<Longrightarrow> SetEvictable fid e r = Inr r' \<Longrightarrow> candidates_ordered r'"
  by (auto simp: candidates_ordered_def SetEvictable_def RemoveFrameFromSetInternal_def Let_def
        ordered_insert sorted_erase_first split: option.splits sum.splits if_splits)

lemma Remove_ordered:
  "candidates_ordered r \<Longrightarrow> Remove fid r = Inr r' \<Longrightarrow> candidates_ordered r'"
  by (auto simp: candidates_ordered_def Remove_def RemoveFrameFromSetInternal_def Let_def
        sorted_erase_first split: option.splits sum.splits if_splits)

lemma Evict_ordered:
  "candidates_ordered r \<Longrightarrow> candidates_ordered (snd (Evict r))"
  by (auto simp: candidates_ordered_def Evict_def RemoveFrameFromSetInternal_def Let_def
        sorted_erase_first)

lemma step_ordered:
  "candidates_ordered r \<Longrightarrow> replacer_step x r = Inr r' \<Longrightarrow> candidates_ordered r'"
  by (cases x) (auto intro: RecordAccess_ordered SetEvictable_ordered Remove_ordered Evict_ordered)

lemma run_ordered:
  "candidates_ordered r \<Longrightarrow> replacer_run ops r = Inr r' \<Longrightarrow> candidates_ordered r'"
proof (induction ops arbitrary: r)
  case Nil
  then show ?case by simp
next
  case (Cons x xs)
  then show ?case
    by (auto split: sum.splits dest: step_ordered)
qed

lemma sorted_last_greatest:
  "sorted_wrt lt ys \<Longrightarrow> ys \<noteq> [] \<Longrightarrow> \<forall>x \<in> set (butlast ys). lt x (last ys)"
  by (induction ys) (auto dest: in_set_butlastD)

text \<open>
  The victim within the candidate set.  After every run of operations on a new replacer
  that leaves the set \<^verbatim>\<open>frame_history_set_\<close> non-empty, \<^verbatim>\<open>Evict\<close> returns the frame \<open>v\<close> at
  the end of the set, and every other frame \<open>x\<close> of the set orders before it: either \<open>x\<close>
  holds \<open>k\<close> timestamps and \<open>v\<close> does not, or both hold \<open>k\<close> or both hold fewer and the
  oldest timestamp kept for \<open>v\<close> (its first access, or its \<open>k\<close>-th most recent one) is
  earlier than that of \<open>x\<close>.
\<close>

theorem Evict_returns_greatest_candidate:
  assumes "replacer_run ops (LRUKReplacer_new n k) = Inr r" and "frame_history_set r \<noteq> []"
  shows "fst (Evict r) = Some (frame_id (last (frame_history_set r)))
         \<and> (\<forall>x \<in> set (butlast (frame_history_set r)).
              (length (access_history x) = look_back_size x
                 \<and> length (access_history (last (frame_history_set r)))
                     \<noteq> look_back_size (last (frame_history_set r)))
              \<or> ((length (access_history x) = look_back_size x)
                    = (length (access_history (last (frame_history_set r)))
                         = look_back_size (last (frame_history_set r)))
                 \<and> last (access_history (last (frame_history_set r)))
                     < last (access_history x)))"
proof -
  have "candidates_ordered (LRUKReplacer_new n k)"
    by (simp add: candidates_ordered_def LRUKReplacer_new_def)
  then have "candidates_ordered r"
    using assms(1) by (rule run_ordered)
  then have "\<forall>x \<in> set (butlast (frame_history_set r)).
               FrameAccessHistoryOrderComparison x (last (frame_history_set r))"
    using assms(2) sorted_last_greatest by (auto simp: candidates_ordered_def)
  then show ?thesis
    using assms(2) by (auto simp: comparison_iff Evict_def Let_def GetFrameId_def)
qed

text \<open>
  The theorem at the run of scenario S1: six frames accessed once each and all set
  evictable; the victim is frame 1.
\<close>

theorem Evict_returns_greatest_candidate_witness:
  "\<exists>r. replacer_run
          (map (\<lambda>f. OpRecordAccess f f) [1, 2, 3, 4, 5, 6]
             @ map (\<lambda>f. OpSetEvictable f True) [1, 2, 3, 4, 5, 6])
          (LRUKReplacer_new 7 2) = Inr r
       \<and> map frame_id (frame_history_set r) = [6, 5, 4, 3, 2, 1]
       \<and> fst (Evict r) = Some 1"
proof -
  let ?ops = "map (\<lambda>f. OpRecordAccess f f) [1, 2, 3, 4, 5, 6]
                @ map (\<lambda>f. OpSetEvictable f True) [1, 2, 3, 4, 5, 6]"
  have "(case replacer_run ?ops (LRUKReplacer_new 7 2) of
           Inl e \<Rightarrow> False
         | Inr r \<Rightarrow> map frame_id (frame_history_set r) = [6, 5, 4, 3, 2, 1])"
    by code_simp
  then obtain r where run: "replacer_run ?ops (LRUKReplacer_new 7 2) = Inr r"
    and set: "map frame_id (frame_history_set r) = [6, 5, 4, 3, 2, 1]"
    by (auto split: sum.splits)
  from set have ne: "frame_history_set r \<noteq> []"
    by auto
  from set ne have "frame_id (last (frame_history_set r)) = 1"
    by (simp add: last_map [symmetric])
  with Evict_returns_greatest_candidate [OF run ne] have "fst (Evict r) = Some 1"
    by simp
  with run set show ?thesis
    by (intro exI [of _ r]) simp
qed

subsection \<open>Extendible hash table\<close>

text \<open>
  C4.  The claim is that \<^verbatim>\<open>Insert(k, v2)\<close> on a key already present makes \<^verbatim>\<open>Find(k)\<close>
  yield \<open>v2\<close>, also when the bucket of \<open>k\<close> is full.  With buckets of two entries, keys 0
  and 2 fill the bucket of slot 0; inserting key 0 again with a new value leaves the
  table as it was, and \<^verbatim>\<open>Find(0)\<close> yields the old value.
\<close>

theorem Insert_duplicate_into_full_bucket_keeps_old_value:
  "(case hash_insert_all 10 std_hash_int [(0, ''a''), (2, ''b'')] (ExtendibleHashTable_new 2) of
      Some (Inr h) \<Rightarrow>
        Find std_hash_int h 0 = Inr (Some ''a'')
        \<and> map_sum id IsFull (bucket_at h 0) = Inr True
        \<and> Insert 10 std_hash_int 0 ''c'' h = Some (Inr h)
        \<and> Find std_hash_int h 0 \<noteq> Inr (Some ''c'')
    | _ \<Rightarrow> False)"
  by code_simp

text \<open>Looking a key up in a bucket after \<^verbatim>\<open>Bucket::Insert\<close> found room.\<close>

lemma find_assign_first:
  "find (\<lambda>e. fst e = key) xs \<noteq> None \<Longrightarrow>
   find (\<lambda>e. fst e = key) (assign_first key val xs) = Some (key, val)"
  by (induction xs) auto

lemma find_append_new:
  "find (\<lambda>e. fst e = key) xs = None \<Longrightarrow>
   find (\<lambda>e. fst e = key) (xs @ [(key, val)]) = Some (key, val)"
  by (induction xs) auto

lemma Bucket_Find_Insert:
  "\<not> IsFull b \<Longrightarrow> Bucket_Find (snd (Bucket_Insert key val b)) key = Some val"
proof (cases "find (\<lambda>entry. fst entry = key) (bkt_list b)")
  case None
  assume "\<not> IsFull b"
  with None show ?thesis
    by (simp add: Bucket_Find_def Bucket_Insert_def find_append_new)
next
  case (Some e)
  assume "\<not> IsFull b"
  with Some show ?thesis
    by (simp add: Bucket_Find_def Bucket_Insert_def find_assign_first)
qed

text \<open>
  Insertion where the bucket has room.  When the bucket that the directory gives for the
  key is not full, \<^verbatim>\<open>Insert(k, v)\<close> returns without a split and \<^verbatim>\<open>Find(k)\<close> yields \<open>v\<close>
  afterwards, whether the key was present before or not.
\<close>

theorem Insert_into_bucket_with_room:
  assumes "dir_at h (IndexOf hf h key) = Inr a" and "bucket_at h a = Inr b" and "\<not> IsFull b"
  shows "\<exists>h'. Insert (Suc fuel) hf key val h = Some (Inr h') \<and> Find hf h' key = Inr (Some val)"
  using assms
  by (auto simp: Insert_def Let_def Find_def IndexOf_def dir_at_def bucket_at_def
        Bucket_Find_Insert split: if_splits)

text \<open>
  The theorem at a table with buckets of two entries that holds key 0: the bucket has
  room, and inserting key 0 again replaces the value.
\<close>

theorem Insert_into_bucket_with_room_witness:
  "\<exists>h h'. hash_insert_all 10 std_hash_int [(0, ''a'')] (ExtendibleHashTable_new 2) = Some (Inr h)
       \<and> Find std_hash_int h 0 = Inr (Some ''a'')
       \<and> Insert (Suc 9) std_hash_int 0 ''c'' h = Some (Inr h')
       \<and> Find std_hash_int h' 0 = Inr (Some ''c'')"
proof -
  have "(case hash_insert_all 10 std_hash_int [(0, ''a'')] (ExtendibleHashTable_new 2) of
           Some (Inr h) \<Rightarrow>
             Find std_hash_int h 0 = Inr (Some ''a'')
             \<and> dir_at h (IndexOf std_hash_int h 0) = Inr 0
             \<and> map_sum id IsFull (bucket_at h 0) = Inr False
         | _ \<Rightarrow> False)"
    by code_simp
  then obtain h where
    h: "hash_insert_all 10 std_hash_int [(0, ''a'')] (ExtendibleHashTable_new 2) = Some (Inr h)"
    and old: "Find std_hash_int h 0 = Inr (Some ''a'')"
    and slot: "dir_at h (IndexOf std_hash_int h 0) = Inr 0"
    and room: "map_sum id IsFull (bucket_at h 0) = Inr False"
    by (auto split: option.splits sum.splits)
  from room obtain b where b: "bucket_at h 0 = Inr b" and nf: "\<not> IsFull b"
    by (cases "bucket_at h 0") auto
  from Insert_into_bucket_with_room [OF slot b nf, of 9 "''c''"] obtain h' where
    "Insert (Suc 9) std_hash_int 0 ''c'' h = Some (Inr h')"
    "Find std_hash_int h' 0 = Inr (Some ''c'')"
    by blast
  with h old show ?thesis by blast
qed

subsection \<open>Buffer pool manager\<close>

text \<open>
  C7.  The claim is that \<^verbatim>\<open>FlushAllPages\<close> writes nothing for a frame on the free list.
  In a pool of two frames after one \<^verbatim>\<open>NewPage\<close>, frame 1 is on the free list with page id
  \<^verbatim>\<open>INVALID_PAGE_ID\<close>, and \<^verbatim>\<open>FlushAllPgsImp\<close> calls \<^verbatim>\<open>WritePage\<close> for page 0 and then
  for \<^verbatim>\<open>INVALID_PAGE_ID\<close>.
\<close>

theorem FlushAllPgsImp_writes_free_frame:
  "(case bpm_run 10 [OpNewPage 1] (BufferPoolManagerInstance_new 2 4 2 2) of
      Some (Inr b) \<Rightarrow>
        free_list b = [1]
        \<and> map page_id (pages b) = [0, INVALID_PAGE_ID]
        \<and> disk_writes b = []
        \<and> disk_writes (FlushAllPgsImp b) = [(0, [0, 0]), (INVALID_PAGE_ID, [0, 0])]
    | _ \<Rightarrow> False)"
  by code_simp

text \<open>\<^verbatim>\<open>FlushPgImpInternal\<close> on one frame, and the loop over the first \<open>n\<close> frames.\<close>

lemma FlushPgImpInternal_pages:
  "pages (FlushPgImpInternal i b) = (pages b)[i := (pages b ! i)\<lparr>is_dirty := False\<rparr>]"
  "disk_writes (FlushPgImpInternal i b)
     = disk_writes b @ [(page_id (pages b ! i), data (pages b ! i))]"
  by (simp_all add: FlushPgImpInternal_def Let_def GetPageId_def GetData_def)

lemma fold_flush:
  "n \<le> length (pages b) \<Longrightarrow>
   pages (fold FlushPgImpInternal [0 ..< n] b)
     = map (\<lambda>p. p\<lparr>is_dirty := False\<rparr>) (take n (pages b)) @ drop n (pages b)
   \<and> disk_writes (fold FlushPgImpInternal [0 ..< n] b)
     = disk_writes b @ map (\<lambda>p. (page_id p, data p)) (take n (pages b))"
proof (induction n)
  case 0
  then show ?case by simp
next
  case (Suc n)
  then have n: "n < length (pages b)" by simp
  let ?b = "fold FlushPgImpInternal [0 ..< n] b"
  have ih: "pages ?b = map (\<lambda>p. p\<lparr>is_dirty := False\<rparr>) (take n (pages b)) @ drop n (pages b)"
    "disk_writes ?b = disk_writes b @ map (\<lambda>p. (page_id p, data p)) (take n (pages b))"
    using Suc by simp_all
  have nth: "pages ?b ! n = pages b ! n"
    using n by (simp add: ih nth_append)
  have "pages (FlushPgImpInternal n ?b) = (pages ?b)[n := (pages b ! n)\<lparr>is_dirty := False\<rparr>]"
    by (simp only: FlushPgImpInternal_pages nth)
  also have "\<dots> = map (\<lambda>p. p\<lparr>is_dirty := False\<rparr>) (take n (pages b))
                    @ (drop n (pages b))[0 := (pages b ! n)\<lparr>is_dirty := False\<rparr>]"
    using n by (simp add: ih list_update_append)
  also have "\<dots> = map (\<lambda>p. p\<lparr>is_dirty := False\<rparr>) (take (Suc n) (pages b))
                    @ drop (Suc n) (pages b)"
    using n by (simp add: take_Suc_conv_app_nth Cons_nth_drop_Suc [symmetric])
  finally have "pages (FlushPgImpInternal n ?b)
          = map (\<lambda>p. p\<lparr>is_dirty := False\<rparr>) (take (Suc n) (pages b)) @ drop (Suc n) (pages b)" .
  moreover have "disk_writes (FlushPgImpInternal n ?b)
          = disk_writes ?b @ [(page_id (pages b ! n), data (pages b ! n))]"
    by (simp only: FlushPgImpInternal_pages nth)
  then have "disk_writes (FlushPgImpInternal n ?b)
          = disk_writes b @ map (\<lambda>p. (page_id p, data p)) (take (Suc n) (pages b))"
    using n by (simp add: ih(2) take_Suc_conv_app_nth)
  ultimately show ?case by simp
qed

text \<open>
  What \<^verbatim>\<open>FlushAllPgsImp\<close> writes.  In a pool whose array has \<^verbatim>\<open>pool_size_\<close> frames, the
  disk manager receives one \<^verbatim>\<open>WritePage\<close> for every frame, in the order of the frames and
  under the page id the frame holds, and every dirty flag is false afterwards.
\<close>

theorem FlushAllPgsImp_writes_every_frame:
  assumes "length (pages b) = pool_size b"
  shows "disk_writes (FlushAllPgsImp b)
           = disk_writes b @ map (\<lambda>p. (page_id p, data p)) (pages b)
         \<and> pages (FlushAllPgsImp b) = map (\<lambda>p. p\<lparr>is_dirty := False\<rparr>) (pages b)"
  using fold_flush [of "pool_size b" b] assms by (simp add: FlushAllPgsImp_def)

text \<open>The theorem at \<open>pool_three_pinned\<close>, whose three frames hold the pages 0, 1 and 2.\<close>

theorem FlushAllPgsImp_writes_every_frame_witness:
  "disk_writes (FlushAllPgsImp pool_three_pinned) = [(0, [0, 0]), (1, [0, 0]), (2, [0, 0])]"
proof -
  have len: "length (pages pool_three_pinned) = pool_size pool_three_pinned"
    by code_simp
  have "disk_writes pool_three_pinned
          @ map (\<lambda>p. (page_id p, data p)) (pages pool_three_pinned)
        = [(0, [0, 0]), (1, [0, 0]), (2, [0, 0])]"
    by code_simp
  with FlushAllPgsImp_writes_every_frame [OF len] show ?thesis
    by simp
qed

text \<open>Reading the store of frames and the replacer's map after an update.\<close>

lemma umap_find_assign:
  "umap_find (umap_assign k v m) k' =
     (if k' = k \<and> umap_find m k \<noteq> None then Some v else umap_find m k')"
  by (induction m) (auto simp: umap_find_def umap_assign_def)

lemma SetEvictable_tracked:
  assumes "umap_find (frame_index_map r) fid = Some fr"
  shows "\<exists>r'. SetEvictable fid True r = Inr r'
            \<and> umap_find (frame_index_map r') fid = Some (fr\<lparr>is_evictable := True\<rparr>)"
  using assms
  by (simp add: SetEvictable_def Let_def RemoveFrameFromSetInternal_def umap_find_assign)

lemma page_at_set_page:
  "page_at b fid = Inr pg \<Longrightarrow>
   page_at (set_page fid p b) g = (if g = fid then Inr p else page_at b g)"
  by (auto simp: page_at_def set_page_def split: if_splits)

lemma page_at_replacer_upd: "page_at (b\<lparr>replacer := r\<rparr>) g = page_at b g"
  by (simp add: page_at_def)

lemma set_page_fields:
  "page_table (set_page fid p b) = page_table b"
  "free_list (set_page fid p b) = free_list b"
  "disk_writes (set_page fid p b) = disk_writes b"
  "next_page_id (set_page fid p b) = next_page_id b"
  "replacer (set_page fid p b) = replacer b"
  by (simp_all add: set_page_def)

text \<open>The four ways through \<^verbatim>\<open>UnpinPgImp\<close>.\<close>

lemma Unpin_not_resident:
  "Find std_hash_int (page_table b) pid = Inr None \<Longrightarrow> UnpinPgImp pid dirty b = Inr (False, b)"
  by (simp add: UnpinPgImp_def)

lemma Unpin_zero:
  "Find std_hash_int (page_table b) pid = Inr (Some fid) \<Longrightarrow> page_at b fid = Inr pg \<Longrightarrow>
   pin_count pg \<le> 0 \<Longrightarrow> UnpinPgImp pid dirty b = Inr (False, b)"
  by (simp add: UnpinPgImp_def GetPinCount_def)

lemma Unpin_many:
  assumes "Find std_hash_int (page_table b) pid = Inr (Some fid)" "page_at b fid = Inr pg"
    "1 < pin_count pg"
  shows "UnpinPgImp pid dirty b =
     Inr (True,
       set_page fid (pg\<lparr>is_dirty := is_dirty pg \<or> dirty, pin_count := pin_count pg - 1\<rparr>) b)"
  using assms by (cases dirty) (auto simp add: UnpinPgImp_def GetPinCount_def Let_def)

lemma Unpin_last:
  assumes "Find std_hash_int (page_table b) pid = Inr (Some fid)" "page_at b fid = Inr pg"
    "pin_count pg = 1" "SetEvictable fid True (replacer b) = Inr r"
  shows "UnpinPgImp pid dirty b =
     Inr (True,
       (set_page fid (pg\<lparr>is_dirty := is_dirty pg \<or> dirty, pin_count := 0\<rparr>) b)
         \<lparr>replacer := r\<rparr>)"
  using assms by (cases dirty) (auto simp add: UnpinPgImp_def GetPinCount_def Let_def)

text \<open>
  C2.  \<^verbatim>\<open>UnpinPgImp(page_id, is_dirty)\<close> in every state of the pool.  When the page table
  does not hold the page, or it maps the page to a frame of the pool whose pin count is
  zero (or below), the result is false and the state is the one before.  When the pin count is positive (and, for the
  last pin, the replacer knows the frame, as it does after \<^verbatim>\<open>NewPage\<close> or \<^verbatim>\<open>FetchPage\<close>),
  the result is true; the dirty flag of the frame is the old flag or \<^verbatim>\<open>is_dirty\<close>, the
  pin count is one less, and no other frame, nor the page table, the free list, the
  disk or the page counter changes.  The replacer is the one after
  \<^verbatim>\<open>SetEvictable(frame, true)\<close>, with the frame's flag set, when the count reached zero,
  and is unchanged otherwise.  A further unpin after the count reached zero returns
  false and changes nothing.
\<close>

theorem UnpinPgImp_behaviour:
  "(Find std_hash_int (page_table b) pid = Inr None \<longrightarrow>
      UnpinPgImp pid dirty b = Inr (False, b))
   \<and> (Find std_hash_int (page_table b) pid = Inr (Some fid) \<and> page_at b fid = Inr pg
        \<and> pin_count pg \<le> 0 \<longrightarrow>
      UnpinPgImp pid dirty b = Inr (False, b))
   \<and> (Find std_hash_int (page_table b) pid = Inr (Some fid) \<and> page_at b fid = Inr pg
        \<and> 0 < pin_count pg
        \<and> (pin_count pg = 1 \<longrightarrow> umap_find (frame_index_map (replacer b)) fid \<noteq> None) \<longrightarrow>
      (\<exists>b'. UnpinPgImp pid dirty b = Inr (True, b')
          \<and> page_at b' fid =
              Inr (pg\<lparr>is_dirty := is_dirty pg \<or> dirty, pin_count := pin_count pg - 1\<rparr>)
          \<and> (\<forall>g. g \<noteq> fid \<longrightarrow> page_at b' g = page_at b g)
          \<and> page_table b' = page_table b \<and> free_list b' = free_list b
          \<and> disk_writes b' = disk_writes b \<and> next_page_id b' = next_page_id b
          \<and> (if pin_count pg = 1
              then SetEvictable fid True (replacer b) = Inr (replacer b')
                   \<and> map_option IsEvictable (umap_find (frame_index_map (replacer b')) fid)
                       = Some True
              else replacer b' = replacer b)
          \<and> (pin_count pg = 1 \<longrightarrow> UnpinPgImp pid dirty' b' = Inr (False, b'))))"
proof (intro conjI impI)
  assume "Find std_hash_int (page_table b) pid = Inr None"
  then show "UnpinPgImp pid dirty b = Inr (False, b)"
    by (rule Unpin_not_resident)
next
  assume "Find std_hash_int (page_table b) pid = Inr (Some fid) \<and> page_at b fid = Inr pg
            \<and> pin_count pg \<le> 0"
  then show "UnpinPgImp pid dirty b = Inr (False, b)"
    using Unpin_zero by blast
next
  assume a: "Find std_hash_int (page_table b) pid = Inr (Some fid) \<and> page_at b fid = Inr pg
               \<and> 0 < pin_count pg
               \<and> (pin_count pg = 1 \<longrightarrow> umap_find (frame_index_map (replacer b)) fid \<noteq> None)"
  then have found: "Find std_hash_int (page_table b) pid = Inr (Some fid)"
    and pg: "page_at b fid = Inr pg" and pos: "0 < pin_count pg"
    by simp_all
  let ?pg' = "pg\<lparr>is_dirty := is_dirty pg \<or> dirty, pin_count := pin_count pg - 1\<rparr>"
  show "\<exists>b'. UnpinPgImp pid dirty b = Inr (True, b')
          \<and> page_at b' fid = Inr ?pg'
          \<and> (\<forall>g. g \<noteq> fid \<longrightarrow> page_at b' g = page_at b g)
          \<and> page_table b' = page_table b \<and> free_list b' = free_list b
          \<and> disk_writes b' = disk_writes b \<and> next_page_id b' = next_page_id b
          \<and> (if pin_count pg = 1
              then SetEvictable fid True (replacer b) = Inr (replacer b')
                   \<and> map_option IsEvictable (umap_find (frame_index_map (replacer b')) fid)
                       = Some True
              else replacer b' = replacer b)
          \<and> (pin_count pg = 1 \<longrightarrow> UnpinPgImp pid dirty' b' = Inr (False, b'))"
  proof (cases "pin_count pg = 1")
    case False
    with pos have many: "1 < pin_count pg" by simp
    have "UnpinPgImp pid dirty b = Inr (True, set_page fid ?pg' b)"
      using Unpin_many [OF found pg many] .
    then show ?thesis
      using False pg by (simp add: page_at_set_page set_page_fields)
  next
    case True
    with a obtain fr where fr: "umap_find (frame_index_map (replacer b)) fid = Some fr"
      by auto
    from SetEvictable_tracked [OF fr] obtain r where
      r: "SetEvictable fid True (replacer b) = Inr r"
      and flag: "umap_find (frame_index_map r) fid = Some (fr\<lparr>is_evictable := True\<rparr>)"
      by blast
    let ?b' = "(set_page fid (pg\<lparr>is_dirty := is_dirty pg \<or> dirty, pin_count := 0\<rparr>) b)
                 \<lparr>replacer := r\<rparr>"
    have res: "UnpinPgImp pid dirty b = Inr (True, ?b')"
      using Unpin_last [OF found pg True r] .
    have at: "page_at ?b' fid = Inr (pg\<lparr>is_dirty := is_dirty pg \<or> dirty, pin_count := 0\<rparr>)"
      using pg by (simp add: page_at_replacer_upd page_at_set_page)
    have again: "UnpinPgImp pid dirty' ?b' = Inr (False, ?b')"
      by (rule Unpin_zero [OF _ at]) (simp_all add: found set_page_fields)
    have others: "\<forall>g. g \<noteq> fid \<longrightarrow> page_at ?b' g = page_at b g"
      using pg by (simp add: page_at_replacer_upd page_at_set_page)
    show ?thesis
      using res at again others True r flag
      by (intro exI [of _ ?b']) (simp add: set_page_fields IsEvictable_def)
  qed
qed

text \<open>
  The theorem at \<open>pool_three_pinned\<close>: page 7 is not resident; page 0 sits in frame 0
  with one pin, and the replacer knows frame 0.
\<close>

theorem UnpinPgImp_behaviour_witness:
  "UnpinPgImp 7 True pool_three_pinned = Inr (False, pool_three_pinned)
   \<and> (\<exists>b'. UnpinPgImp 0 True pool_three_pinned = Inr (True, b')
         \<and> page_at b' 0 = Inr \<lparr>page_id = 0, pin_count = 0, is_dirty = True, data = [0, 0]\<rparr>
         \<and> map_option IsEvictable (umap_find (frame_index_map (replacer b')) 0) = Some True
         \<and> UnpinPgImp 0 False b' = Inr (False, b'))"
proof -
  have absent: "Find std_hash_int (page_table pool_three_pinned) 7 = Inr None"
    by code_simp
  have found: "Find std_hash_int (page_table pool_three_pinned) 0 = Inr (Some 0)"
    by code_simp
  have pg: "page_at pool_three_pinned 0
              = Inr \<lparr>page_id = 0, pin_count = 1, is_dirty = False, data = [0, 0]\<rparr>"
    by code_simp
  have known: "umap_find (frame_index_map (replacer pool_three_pinned)) 0 \<noteq> None"
    by code_simp
  have first: "UnpinPgImp 7 True pool_three_pinned = Inr (False, pool_three_pinned)"
    using UnpinPgImp_behaviour [of pool_three_pinned 7 True] absent by blast
  have "\<exists>b'. UnpinPgImp 0 True pool_three_pinned = Inr (True, b')
         \<and> page_at b' 0 = Inr \<lparr>page_id = 0, pin_count = 0, is_dirty = True, data = [0, 0]\<rparr>
         \<and> map_option IsEvictable (umap_find (frame_index_map (replacer b')) 0) = Some True
         \<and> UnpinPgImp 0 False b' = Inr (False, b')"
    using UnpinPgImp_behaviour
      [of pool_three_pinned 0 True 0
          "\<lparr>page_id = 0, pin_count = 1, is_dirty = False, data = [0, 0]\<rparr>" False]
      found pg known
    by auto
  with first show ?thesis by blast
qed

subsection \<open>B+ tree\<close>

text \<open>
  C1.  The claim is that \<^verbatim>\<open>Insert\<close> of a key that is present returns false, also when
  the leaf is full.  With \<^verbatim>\<open>leaf_max_size = 3\<close>, the keys 1, 2, 3 fill the root leaf;
  \<^verbatim>\<open>Insert(2)\<close> then leaves the tree as it is and returns true.
\<close>

theorem Insert_duplicate_into_full_leaf_returns_true:
  "(case insert_all 10 [1, 2, 3] (BPlusTree_new 3 3) of
      Some (Inr t) \<Rightarrow>
        GetValue 10 t 2 [] = Some (Inr (True, [2], t))
        \<and> node_size (deref t (root_page_id t)) = leaf_max_size t
        \<and> BPlusTree_Insert 10 2 2 t = Some (Inr (True, t))
    | _ \<Rightarrow> False)"
  by code_simp

text \<open>
  \<^verbatim>\<open>Insert\<close> of a key that the leaf holds.  When the descent from the root ends in a
  leaf whose binary search finds the key, \<^verbatim>\<open>Insert\<close> changes no node (the state it
  leaves is the one the descent reached), and its result is true exactly when the leaf is
  full.
\<close>

theorem Insert_present_key:
  assumes "root_page_id t \<noteq> INVALID_PAGE_ID"
    and "fetch t (root_page_id t) = Inr (r, t1)"
    and "descend_to_leaf fuel t1 key r = Some (Inr (leaf, t2))"
    and "FindIndexInLeafPageJustGreaterThanKey (deref t2 leaf) key = -1"
  shows "BPlusTree_Insert fuel key val t
           = Some (Inr (node_size (deref t2 leaf) = leaf_max_size t2, t2))"
  using assms
  by (simp add: BPlusTree_Insert_def bind_res_def step_def SplitLeafPageAndAddKey_def)

text \<open>
  The theorem at the tree with the keys 1 and 2 in a root leaf of capacity 3, where every
  fetch finds its page pinned: the leaf is not full, and inserting 2 again returns false
  and leaves the tree as it is.
\<close>

theorem Insert_present_key_witness:
  "\<exists>t. insert_all 10 [1, 2] (BPlusTree_new 3 3) = Some (Inr t)
       \<and> BPlusTree_Insert 10 2 2 t = Some (Inr (False, t))"
proof -
  have "(case insert_all 10 [1, 2] (BPlusTree_new 3 3) of
           Some (Inr t) \<Rightarrow>
             root_page_id t \<noteq> INVALID_PAGE_ID
             \<and> fetch t (root_page_id t) = Inr (1, t)
             \<and> descend_to_leaf 10 t 2 1 = Some (Inr (1, t))
             \<and> FindIndexInLeafPageJustGreaterThanKey (deref t 1) 2 = -1
             \<and> node_size (deref t 1) \<noteq> leaf_max_size t
         | _ \<Rightarrow> False)"
    by code_simp
  then obtain t where t: "insert_all 10 [1, 2] (BPlusTree_new 3 3) = Some (Inr t)"
    and root: "root_page_id t \<noteq> INVALID_PAGE_ID"
    and fetched: "fetch t (root_page_id t) = Inr (1, t)"
    and leaf: "descend_to_leaf 10 t 2 1 = Some (Inr (1, t))"
    and found: "FindIndexInLeafPageJustGreaterThanKey (deref t 1) 2 = -1"
    and room: "node_size (deref t 1) \<noteq> leaf_max_size t"
    by (auto split: option.splits sum.splits)
  from Insert_present_key [OF root fetched leaf found, of 2] room
  have "BPlusTree_Insert 10 2 2 t = Some (Inr (False, t))"
    by simp
  with t show ?thesis by blast
qed

text \<open>
  C6.  The claim is that after every delete each node but the root holds at least
  \<open>\<lceil>max_size / 2\<rceil>\<close> entries.  With both maximal sizes 4, inserting 1 to 9 gives the
  leaves \<open>[1,2,3]\<close>, \<open>[4,5,6]\<close> and \<open>[7,8,9]\<close> (pages 1, 2 and 4) under the root (page 3).
  Removing 5 and 6 leaves the middle leaf, whose neighbours are too full to merge with,
  with the single key 4.
\<close>

theorem Remove_leaves_leaf_underfull:
  "(case bind_res (insert_all 10 [1, 2, 3, 4, 5, 6, 7, 8, 9] (BPlusTree_new 4 4))
           (remove_all 10 [5, 6]) of
      Some (Inr t) \<Rightarrow>
        root_page_id t = 3
        \<and> map (\<lambda>i. ValueAt (deref t 3) i) [0, 1, 2] = [1, 2, 4]
        \<and> IsLeafPage (deref t 2)
        \<and> node_max_size (deref t 2) = 4
        \<and> node_size (deref t 2) = 1
        \<and> GetValue 10 t 4 [] = Some (Inr (True, [4], t))
    | _ \<Rightarrow> False)"
  by code_simp

text \<open>The scan stops before its first step, for every tree and every iterator value.\<close>

lemma scan_all_empty: "scan_all (Suc n) fresh t = Some (Inr ([], t))"
  by (simp add: scan_all_def Begin_def End_def iterator_neq_def)

text \<open>
  C8.  The claim is that the scan from \<^verbatim>\<open>Begin()\<close> to \<^verbatim>\<open>End()\<close> visits the keys 1 to 10.
  \<^verbatim>\<open>Begin()\<close> and \<^verbatim>\<open>End()\<close> return the same iterator whatever the tree holds, so the scan
  of the tree built from the ten keys visits nothing.
\<close>

theorem scan_from_Begin_visits_nothing:
  "\<exists>t. insert_all 10 [3, 7, 1, 10, 5, 2, 9, 4, 8, 6] (BPlusTree_new 3 3) = Some (Inr t)
       \<and> GetValue 10 t 1 [] = Some (Inr (True, [1], t))
       \<and> scan_all (Suc n) fresh t = Some (Inr ([], t))"
proof -
  have built:
    "(case insert_all 10 [3, 7, 1, 10, 5, 2, 9, 4, 8, 6] (BPlusTree_new 3 3) of
        Some (Inr t) \<Rightarrow> GetValue 10 t 1 [] = Some (Inr (True, [1], t))
      | _ \<Rightarrow> False)"
    by code_simp
  then obtain t where
    "insert_all 10 [3, 7, 1, 10, 5, 2, 9, 4, 8, 6] (BPlusTree_new 3 3) = Some (Inr t)"
    "GetValue 10 t 1 [] = Some (Inr (True, [1], t))"
    by (auto split: option.splits sum.splits)
  then show ?thesis
    using scan_all_empty by blast
qed








text \<open>
  \<^verbatim>\<open>Insert\<close> into the empty tree calls \<^verbatim>\<open>NewPage\<close> for the root and dereferences the
  result without a test: in a pool with no free or evictable frame it ends in the null
  dereference.
\<close>

theorem Insert_into_empty_tree_in_full_pool:
  assumes "IsEmpty t" and "frames_left t = 0"
  shows "BPlusTree_Insert fuel key val t = Some (Inl NullDereference)"
  using assms by (simp add: BPlusTree_Insert_def IsEmpty_def NewPage_def step_def)

text \<open>
  The theorem at the empty tree over a pool of one frame.  Over a pool of three frames
  the first three keys fit into the root leaf, and the fourth, whose split needs two new
  pages, ends in the null dereference; a pool of four frames has room for the split.
\<close>

theorem Insert_into_empty_tree_in_full_pool_witness:
  "BPlusTree_Insert 10 1 1 (BPlusTree_in_pool 1 3 3) = Some (Inl NullDereference)
   \<and> insert_all 10 [1, 2, 3, 4] (BPlusTree_in_pool 3 3 3) = Some (Inl NullDereference)
   \<and> (\<exists>t. insert_all 10 [1, 2, 3, 4] (BPlusTree_in_pool 4 3 3) = Some (Inr t)
          \<and> frames_left t = 0)"
proof -
  have full: "IsEmpty (BPlusTree_in_pool 1 3 3) \<and> frames_left (BPlusTree_in_pool 1 3 3) = 0"
    by code_simp
  have first: "BPlusTree_Insert 10 1 1 (BPlusTree_in_pool 1 3 3) = Some (Inl NullDereference)"
    using Insert_into_empty_tree_in_full_pool [of "BPlusTree_in_pool 1 3 3" 10 1 1] full
    by simp
  have three: "insert_all 10 [1, 2, 3, 4] (BPlusTree_in_pool 3 3 3) = Some (Inl NullDereference)"
    by code_simp
  have "(case insert_all 10 [1, 2, 3, 4] (BPlusTree_in_pool 4 3 3) of
           Some (Inr t) \<Rightarrow> frames_left t = 0
         | _ \<Rightarrow> False)"
    by code_simp
  then obtain t where "insert_all 10 [1, 2, 3, 4] (BPlusTree_in_pool 4 3 3) = Some (Inr t)"
    and "frames_left t = 0"
    by (auto split: option.splits sum.splits)
  with first three show ?thesis by blast
qed

end
